theory Spec2Isabelle
  imports Complex_Main "HOL-Library.AList" "HOL-Library.Multiset" "HOL-Library.Product_Lexorder"
begin

section \<open>Conventions of the embedding\<close>

text \<open>
  The development embeds the learner of the rchess repository: the class
  \<^verbatim>\<open>RchessLearner\<close> of the main module (position hashing, game tracking, the fold of
  a finished game into the position statistics, the analysis functions, import of a
  database) and the older \<^verbatim>\<open>learn.js\<close> (its own hash and \<^verbatim>\<open>suggestMove\<close>).

  \<^item> A JavaScript object used as a dictionary is an association list in the order in
    which its properties were created; \<open>ownEntries\<close> gives the order in which
    \<^verbatim>\<open>Object.entries\<close>, \<^verbatim>\<open>Object.values\<close> and \<^verbatim>\<open>for ... in\<close> visit them.
  \<^item> Record fields carry a prefix naming their object (\<open>pos_totalGames\<close> is
    \<^verbatim>\<open>position.totalGames\<close>, \<open>meta_totalGames\<close> is \<^verbatim>\<open>metadata.totalGames\<close>), because the
    source reuses the same property names in several objects.
  \<^item> Counters are natural numbers: the source keeps them in IEEE doubles, which hold
    every integer below \<open>2^53\<close> exactly. Rates, scores and deviations are doubles, with
    the rounding of every operation (\<open>roundD\<close>), the infinities and NaN.
  \<^item> \<^verbatim>\<open>Object.prototype\<close> is shared by all objects: the enumerable properties that the
    learner adds to it are a field of the state (\<open>objectProto\<close>), and the lookups
    \<^verbatim>\<open>obj[key]\<close> of the analysis functions and of the move statistics in the fold
    see its built-in properties (\<open>builtinNames\<close>).
  \<^item> Strings are byte strings; a character outside ASCII stands as its UTF-8 bytes.
  \<^item> What the source reads from its environment (the clock, the random suffix of a game
    id, whether the storage backend accepts a write) is passed in as a \<open>tick\<close>.
  \<^item> A thrown exception is the left injection of a sum, or \<open>Throws\<close> of a \<open>result\<close>.
\<close>

datatype error = TypeError

text \<open>
  The outcome of a call: a value, an exception, or \<open>Unspecified\<close> where the language
  leaves the value to the implementation (the order of \<^verbatim>\<open>Array.prototype.sort\<close> under an
  inconsistent comparator).
\<close>

datatype 'a result = Returns 'a | Throws error | Unspecified

section \<open>JavaScript helpers\<close>

text \<open>Number to string, for the non-negative integers the source concatenates to strings.\<close>

fun showNat :: "nat \<Rightarrow> string" where
  "showNat n =
     (if n < 10 then [char_of (48 + n)] else showNat (n div 10) @ [char_of (48 + n mod 10)])"

text \<open>
  The order of own properties: keys that are array indices (canonical decimal numerals
  below \<open>2^32 - 1\<close>) first, in ascending numeric order, then all other string keys in
  creation order.
\<close>

definition isDigit :: "char \<Rightarrow> bool" where
  "isDigit c = (48 \<le> (of_char c :: int) \<and> (of_char c :: int) \<le> 57)"

definition digitsVal :: "string \<Rightarrow> int" where
  "digitsVal k = foldl (\<lambda>n c. 10 * n + ((of_char c :: int) - 48)) 0 k"

definition isArrayIndex :: "string \<Rightarrow> bool" where
  "isArrayIndex k =
     (k \<noteq> [] \<and> list_all isDigit k \<and> (k = ''0'' \<or> hd k \<noteq> CHR ''0'') \<and> digitsVal k < 2 ^ 32 - 1)"

definition ownEntries :: "(string \<times> 'v) list \<Rightarrow> (string \<times> 'v) list" where
  "ownEntries al =
     sort_key (\<lambda>kv. digitsVal (fst kv)) (filter (\<lambda>kv. isArrayIndex (fst kv)) al)
     @ filter (\<lambda>kv. \<not> isArrayIndex (fst kv)) al"

text \<open>\<^verbatim>\<open>arr.slice(0, n)\<close> for an integer \<open>n\<close>: a negative end counts from the end of the array.\<close>

definition slice0 :: "'a list \<Rightarrow> int \<Rightarrow> 'a list" where
  "slice0 xs n = (if n < 0 then take (length xs - nat (- n)) xs else take (nat n) xs)"

text \<open>\<^verbatim>\<open>arr.join(sep)\<close> on an array of strings.\<close>

fun join :: "string \<Rightarrow> string list \<Rightarrow> string" where
  "join sep [] = []"
| "join sep [x] = x"
| "join sep (x # y # ys) = x @ sep @ join sep (y # ys)"

subsection \<open>Numbers\<close>

text \<open>
  A number is an IEEE 754 binary64 value: a finite value (a rational that the format
  represents), an infinity or NaN. The sign of a zero is not modelled: the learner
  computes with counters, which are not negative, and never divides by a negative
  zero.
\<close>

datatype double = Finite rat | PosInf | NegInf | NaN

function bitLength :: "int \<Rightarrow> int" where
  "bitLength n = (if n \<le> 0 then 0 else 1 + bitLength (n div 2))"
  by pat_completeness auto
termination
  by (relation "measure nat") auto

declare bitLength.simps [simp del]

definition pow2 :: "int \<Rightarrow> rat" where
  "pow2 k = (if 0 \<le> k then 2 ^ nat k else 1 / 2 ^ nat (- k))"

text \<open>
  \<open>\<lfloor>log\<^sub>2 a\<rfloor>\<close> for a positive rational, from the number of bits of the integer part
  of \<open>a\<close> or of \<open>1 / a\<close>.
\<close>

definition negExponent :: "rat \<Rightarrow> int \<Rightarrow> int" where
  "negExponent b k = (if pow2 k = b then - k else - k - 1)"

definition log2floor :: "rat \<Rightarrow> int" where
  "log2floor a =
     (if 1 \<le> a then bitLength \<lfloor>a\<rfloor> - 1 else negExponent (1 / a) (bitLength \<lfloor>1 / a\<rfloor> - 1))"

text \<open>The integer nearest to \<open>m\<close>, the even one of two at the same distance.\<close>

definition nearestOf :: "rat \<Rightarrow> int \<Rightarrow> int" where
  "nearestOf m f =
     (if m - of_int f < 1 / 2 then f
      else if 1 / 2 < m - of_int f then f + 1
      else if even f then f else f + 1)"

definition roundHalfEven :: "rat \<Rightarrow> int" where
  "roundHalfEven m = nearestOf m \<lfloor>m\<rfloor>"

text \<open>
  Rounding of an exact result to the nearest double, ties to the even significand:
  a significand of 53 bits in units of \<open>2^q\<close>, with \<open>q\<close> at least the exponent of the
  subnormal numbers, and overflow to an infinity.
\<close>

definition scaleD :: "rat \<Rightarrow> int \<Rightarrow> rat" where
  "scaleD a q = of_int (roundHalfEven (a / pow2 q)) * pow2 q"

definition packD :: "rat \<Rightarrow> rat \<Rightarrow> double" where
  "packD x y =
     (if pow2 1024 \<le> y then (if 0 < x then PosInf else NegInf)
      else Finite (if 0 < x then y else - y))"

definition roundD :: "rat \<Rightarrow> double" where
  "roundD x =
     (if x = 0 then Finite 0
      else packD x (scaleD \<bar>x\<bar> (max (log2floor \<bar>x\<bar> - 52) (- 1074))))"

text \<open>A counter as a number: exact, the counter being below \<open>2^53\<close>.\<close>

definition ofCount :: "nat \<Rightarrow> double" where
  "ofCount n = Finite (of_nat n)"

fun dneg :: "double \<Rightarrow> double" where
  "dneg (Finite x) = Finite (- x)"
| "dneg PosInf = NegInf"
| "dneg NegInf = PosInf"
| "dneg NaN = NaN"

fun dabs :: "double \<Rightarrow> double" where
  "dabs (Finite x) = Finite \<bar>x\<bar>"
| "dabs PosInf = PosInf"
| "dabs NegInf = PosInf"
| "dabs NaN = NaN"

fun dadd :: "double \<Rightarrow> double \<Rightarrow> double" where
  "dadd NaN b = NaN"
| "dadd a NaN = NaN"
| "dadd (Finite x) (Finite y) = roundD (x + y)"
| "dadd PosInf NegInf = NaN"
| "dadd NegInf PosInf = NaN"
| "dadd PosInf b = PosInf"
| "dadd NegInf b = NegInf"
| "dadd (Finite x) b = b"

definition dsub :: "double \<Rightarrow> double \<Rightarrow> double" where
  "dsub a b = dadd a (dneg b)"

fun dmul :: "double \<Rightarrow> double \<Rightarrow> double" where
  "dmul NaN b = NaN"
| "dmul a NaN = NaN"
| "dmul (Finite x) (Finite y) = roundD (x * y)"
| "dmul (Finite x) PosInf = (if x = 0 then NaN else if 0 < x then PosInf else NegInf)"
| "dmul (Finite x) NegInf = (if x = 0 then NaN else if 0 < x then NegInf else PosInf)"
| "dmul PosInf (Finite y) = (if y = 0 then NaN else if 0 < y then PosInf else NegInf)"
| "dmul NegInf (Finite y) = (if y = 0 then NaN else if 0 < y then NegInf else PosInf)"
| "dmul PosInf PosInf = PosInf"
| "dmul NegInf NegInf = PosInf"
| "dmul PosInf NegInf = NegInf"
| "dmul NegInf PosInf = NegInf"

fun ddiv :: "double \<Rightarrow> double \<Rightarrow> double" where
  "ddiv NaN b = NaN"
| "ddiv a NaN = NaN"
| "ddiv (Finite x) (Finite y) =
     (if y = 0 then (if x = 0 then NaN else if 0 < x then PosInf else NegInf)
      else roundD (x / y))"
| "ddiv (Finite x) b = Finite 0"
| "ddiv PosInf (Finite y) = (if 0 \<le> y then PosInf else NegInf)"
| "ddiv NegInf (Finite y) = (if 0 \<le> y then NegInf else PosInf)"
| "ddiv a b = NaN"

text \<open>
  The place of a number in descending order, and the comparisons \<open>\<le>\<close> and \<^verbatim>\<open>>\<close>;
  a comparison with NaN is false.
\<close>

definition descKey :: "double \<Rightarrow> int \<times> rat" where
  "descKey d =
     (case d of PosInf \<Rightarrow> (0, 0) | Finite x \<Rightarrow> (1, - x) | NegInf \<Rightarrow> (2, 0) | NaN \<Rightarrow> (3, 0))"

definition dle :: "double \<Rightarrow> double \<Rightarrow> bool" where
  "dle a b = (a \<noteq> NaN \<and> b \<noteq> NaN \<and> descKey b \<le> descKey a)"

definition dgt :: "double \<Rightarrow> double \<Rightarrow> bool" where
  "dgt a b = (a \<noteq> NaN \<and> b \<noteq> NaN \<and> descKey a < descKey b)"

subsection \<open>Sorting\<close>

text \<open>
  \<^verbatim>\<open>arr.sort((a, b) => key(b) - key(a))\<close>. The difference of two numbers that are not
  NaN is positive, zero (or NaN, for equal infinities) or negative as the first is
  greater than, equal to or less than the second, so without a NaN key the comparator
  is consistent and the sort, which is stable, orders by descending key and keeps ties
  in their order. The sort reads a NaN difference as zero: with a NaN key the
  comparator is consistent only when all other keys are equal (the array is left as
  it is), otherwise the order is implementation-defined (\<open>None\<close>).
\<close>

definition allTied :: "double list \<Rightarrow> bool" where
  "allTied ks =
     (case filter (\<lambda>k. k \<noteq> NaN) ks of [] \<Rightarrow> True | k0 # rest \<Rightarrow> list_all (\<lambda>k. k = k0) rest)"

definition jsSortDesc :: "('a \<Rightarrow> double) \<Rightarrow> 'a list \<Rightarrow> 'a list option" where
  "jsSortDesc key xs =
     (if list_all (\<lambda>x. key x \<noteq> NaN) xs then Some (sort_key (\<lambda>x. descKey (key x)) xs)
      else if allTied (map key xs) then Some xs
      else None)"

definition sortResult :: "'a list option \<Rightarrow> 'a list result" where
  "sortResult r = (case r of None \<Rightarrow> Unspecified | Some xs \<Rightarrow> Returns xs)"

subsection \<open>Base64 (\<^verbatim>\<open>btoa\<close>)\<close>

definition b64alphabet :: string where
  "b64alphabet = ''ABCDEFGHIJKLMNOPQRSTUVWXYZabcdefghijklmnopqrstuvwxyz0123456789+/''"

definition b64char :: "nat \<Rightarrow> char" where
  "b64char i = b64alphabet ! i"

fun b64groups :: "nat list \<Rightarrow> string" where
  "b64groups (a # b # c # rest) =
     [b64char (a div 4), b64char ((a mod 4) * 16 + b div 16),
      b64char ((b mod 16) * 4 + c div 64), b64char (c mod 64)] @ b64groups rest"
| "b64groups [a, b] =
     [b64char (a div 4), b64char ((a mod 4) * 16 + b div 16), b64char ((b mod 16) * 4),
      CHR ''='']"
| "b64groups [a] = [b64char (a div 4), b64char ((a mod 4) * 16), CHR ''='', CHR ''='']"
| "b64groups [] = []"

text \<open>
  \<^verbatim>\<open>btoa\<close> raises on a code unit above 255; a \<open>char\<close> is a byte, so every string of the
  model is in its domain.
\<close>

definition btoa :: "string \<Rightarrow> string" where
  "btoa s = b64groups (map of_char s)"

section \<open>Boards and the position hash\<close>

text \<open>
  A cell is empty (\<^verbatim>\<open>null\<close>) or a piece object with \<^verbatim>\<open>color\<close> and \<^verbatim>\<open>pieceType\<close>;
  \<open>type_prop\<close> is its property \<^verbatim>\<open>type\<close>, which \<^verbatim>\<open>boardToFEN\<close> reads and which the
  pieces of the board collaborator do not have (\<open>None\<close> is \<^verbatim>\<open>undefined\<close>).
  A board is an array of rows. Reading a row that does not exist raises a
  \<^verbatim>\<open>TypeError\<close>; reading a cell beyond the end of a row gives \<^verbatim>\<open>undefined\<close>, which
  counts as empty.
\<close>

record piece =
  color :: string
  pieceType :: string
  type_prop :: "string option"

type_synonym board = "piece option list list"

definition rowCells :: "piece option list \<Rightarrow> piece option list" where
  "rowCells row = map (\<lambda>c. if c < length row then row ! c else None) [0..<8]"

text \<open>
  \<^verbatim>\<open>pieceToChar\<close>: the table of the six piece names, \<^verbatim>\<open>'?'\<close> for any other name
  (names that an object literal inherits from \<^verbatim>\<open>Object.prototype\<close> are not modelled).
\<close>

definition pieceToChar :: "string \<Rightarrow> char" where
  "pieceToChar t =
     (case map_of [(''pawn'', CHR ''p''), (''knight'', CHR ''n''), (''bishop'', CHR ''b''),
                   (''rook'', CHR ''r''), (''queen'', CHR ''q''), (''king'', CHR ''k'')] t of
        Some c \<Rightarrow> c
      | None \<Rightarrow> CHR ''?'')"

text \<open>
  The inner loop of \<^verbatim>\<open>hashPosition\<close> over the cells of one row, with the counter
  \<^verbatim>\<open>empty\<close> (here \<open>emptyN\<close>), followed by the flush of the counter after the loop.
\<close>

fun rowPlacement :: "piece option list \<Rightarrow> nat \<Rightarrow> string" where
  "rowPlacement [] emptyN = (if emptyN > 0 then showNat emptyN else [])"
| "rowPlacement (None # cs) emptyN = rowPlacement cs (emptyN + 1)"
| "rowPlacement (Some p # cs) emptyN =
     (if emptyN > 0 then showNat emptyN else [])
     @ [if color p = ''white'' then CHR ''w'' else CHR ''b'', pieceToChar (pieceType p)]
     @ rowPlacement cs 0"

definition placement :: "board \<Rightarrow> string" where
  "placement board =
     concat (map (\<lambda>r. rowPlacement (rowCells (board ! r)) 0 @ (if r < 7 then ''/'' else []))
               [0..<8])"

definition stripUnsafe :: "string \<Rightarrow> string" where
  "stripUnsafe s = filter (\<lambda>c. c \<notin> {CHR ''+'', CHR ''/'', CHR ''=''}) s"

definition hashPosition :: "board \<Rightarrow> string \<Rightarrow> error + string" where
  "hashPosition board currentPlayer =
     (if length board < 8 then Inl TypeError
      else Inr (stripUnsafe (take 8 (btoa
             (placement board @ [if currentPlayer = ''white'' then CHR ''w'' else CHR ''b''])))))"

definition alnum :: "char set" where
  "alnum = set ''ABCDEFGHIJKLMNOPQRSTUVWXYZabcdefghijklmnopqrstuvwxyz0123456789''"

section \<open>The statistics store\<close>

type_synonym time = nat

record tick =
  now :: time
  rnd :: string
  quotaOk :: bool

record moveStats =
  ms_played :: nat
  ms_wins :: nat
  ms_losses :: nat
  ms_draws :: nat

record outcomes =
  out_white :: nat
  out_black :: nat
  out_draw :: nat

record position =
  pos_hash :: string
  pos_fen :: string
  pos_firstSeen :: time
  pos_lastSeen :: time
  pos_totalGames :: nat
  pos_outcomes :: outcomes
  pos_moves :: "(string \<times> moveStats) list"
  pos_patterns :: "string list"
  pos_popularity :: nat

text \<open>An element of \<^verbatim>\<open>game.positions\<close>; \<open>ent_move = None\<close> is \<^verbatim>\<open>null\<close>.\<close>

record entry =
  ent_hash :: string
  ent_move :: "string option"
  ent_player :: string
  ent_timestamp :: time

record game =
  game_id :: string
  game_startTime :: time
  game_endTime :: "time option"
  game_positions :: "entry list"
  game_moves :: "string list"
  game_result :: "string option"
  game_players :: "(string \<times> string) list"

record metadata =
  meta_version :: string
  meta_lastUpdated :: time
  meta_totalGames :: nat

record database =
  db_positions :: "(string \<times> position) list"
  db_games :: "game list"
  db_patterns :: "(string \<times> nat) list"
  db_metadata :: metadata

text \<open>
  The learner, and with it the enumerable properties that its code has added to
  \<^verbatim>\<open>Object.prototype\<close> (their names in creation order; the value of each is NaN).
\<close>

record learner =
  db :: database
  currentGame :: "game option"
  objectProto :: "string list"

text \<open>The default empty database of \<^verbatim>\<open>loadDatabase\<close> and \<^verbatim>\<open>reset\<close>.\<close>

definition emptyDatabase :: "time \<Rightarrow> database" where
  "emptyDatabase t =
     \<lparr>db_positions = [], db_games = [], db_patterns = [],
      db_metadata = \<lparr>meta_version = ''1.0'', meta_lastUpdated = t, meta_totalGames = 0\<rparr>\<rparr>"

text \<open>The learner that the constructor builds when the storage holds no database.\<close>

definition newLearner :: "time \<Rightarrow> learner" where
  "newLearner t = \<lparr>db = emptyDatabase t, currentGame = None, objectProto = []\<rparr>"

text \<open>
  \<^verbatim>\<open>saveDatabase\<close>: stamps \<^verbatim>\<open>metadata.lastUpdated\<close>, then writes the serialised
  database to the storage backend; the text written is outside the model, whether the
  write succeeds is the result.
\<close>

definition saveDatabase :: "tick \<Rightarrow> learner \<Rightarrow> bool \<times> learner" where
  "saveDatabase t s =
     (quotaOk t,
      s\<lparr>db := (db s)\<lparr>db_metadata := (db_metadata (db s))\<lparr>meta_lastUpdated := now t\<rparr>\<rparr>\<rparr>)"

subsection \<open>Board summary and pattern tags\<close>

text \<open>
  \<^verbatim>\<open>boardToFEN\<close> appends \<^verbatim>\<open>piece.type\<close>; for a piece without that property the
  concatenation appends the text \<^verbatim>\<open>undefined\<close>.
\<close>

fun rowFEN :: "piece option list \<Rightarrow> nat \<Rightarrow> string" where
  "rowFEN [] emptyN = (if emptyN > 0 then showNat emptyN else [])"
| "rowFEN (None # cs) emptyN = rowFEN cs (emptyN + 1)"
| "rowFEN (Some p # cs) emptyN =
     (if emptyN > 0 then showNat emptyN else [])
     @ (case type_prop p of None \<Rightarrow> ''undefined'' | Some symbol \<Rightarrow> symbol)
     @ rowFEN cs 0"

definition boardToFEN :: "board \<Rightarrow> string \<Rightarrow> string" where
  "boardToFEN board currentPlayer =
     concat (map (\<lambda>r. rowFEN (rowCells (board ! r)) 0 @ (if r < 7 then ''/'' else []))
               [0..<8])
     @ (if currentPlayer = ''white'' then '' w'' else '' b'')"

definition cellAt :: "board \<Rightarrow> nat \<Rightarrow> nat \<Rightarrow> piece option" where
  "cellAt board r c = rowCells (board ! r) ! c"

definition isPiece :: "string \<Rightarrow> string \<Rightarrow> piece option \<Rightarrow> bool" where
  "isPiece kind col cell =
     (case cell of None \<Rightarrow> False | Some p \<Rightarrow> pieceType p = kind \<and> color p = col)"

definition isKingSafe :: "board \<Rightarrow> string \<Rightarrow> bool" where
  "isKingSafe board col =
     list_ex (\<lambda>r. list_ex (\<lambda>c. isPiece ''king'' col (cellAt board r c)) [0..<8]) [0..<8]"

definition controlsCenter :: "board \<Rightarrow> string \<Rightarrow> bool" where
  "controlsCenter board col = True"

definition hasBishopPair :: "board \<Rightarrow> string \<Rightarrow> bool" where
  "hasBishopPair board col =
     (length (concat (map (\<lambda>r. filter (\<lambda>c. isPiece ''bishop'' col (cellAt board r c)) [0..<8])
                        [0..<8])) \<ge> 2)"

definition hasDoubledPawns :: "board \<Rightarrow> string \<Rightarrow> bool" where
  "hasDoubledPawns board col =
     list_ex (\<lambda>c. length (filter (\<lambda>r. isPiece ''pawn'' col (cellAt board r c)) [0..<8]) > 1)
       [0..<8]"

definition detectPatterns :: "board \<Rightarrow> string \<Rightarrow> string list" where
  "detectPatterns board currentPlayer =
     (if isKingSafe board ''white'' then [''white_king_safe''] else [])
     @ (if isKingSafe board ''black'' then [''black_king_safe''] else [])
     @ (if controlsCenter board ''white'' then [''white_center''] else [])
     @ (if controlsCenter board ''black'' then [''black_center''] else [])
     @ (if hasBishopPair board ''white'' then [''white_bishop_pair''] else [])
     @ (if hasBishopPair board ''black'' then [''black_bishop_pair''] else [])
     @ (if hasDoubledPawns board ''white'' then [''white_doubled_pawns''] else [])
     @ (if hasDoubledPawns board ''black'' then [''black_doubled_pawns''] else [])"

subsection \<open>Recording positions\<close>

definition newPosition :: "string \<Rightarrow> board \<Rightarrow> string \<Rightarrow> tick \<Rightarrow> position" where
  "newPosition h board currentPlayer t =
     \<lparr>pos_hash = h, pos_fen = boardToFEN board currentPlayer,
      pos_firstSeen = now t, pos_lastSeen = now t, pos_totalGames = 0,
      pos_outcomes = \<lparr>out_white = 0, out_black = 0, out_draw = 0\<rparr>,
      pos_moves = [], pos_patterns = detectPatterns board currentPlayer,
      pos_popularity = 0\<rparr>"

text \<open>
  \<^verbatim>\<open>updatePositionStats\<close>, on the dictionary \<^verbatim>\<open>db.positions\<close>: creates the record of an
  unknown hash (a new property, last in creation order), then stamps \<^verbatim>\<open>lastSeen\<close> and
  increments \<^verbatim>\<open>popularity\<close>.
\<close>

definition updatePositionStats ::
  "string \<Rightarrow> board \<Rightarrow> string \<Rightarrow> tick \<Rightarrow> (string \<times> position) list \<Rightarrow> (string \<times> position) list"
where
  "updatePositionStats h board currentPlayer t ps =
     (let pos = (case map_of ps h of
                   None \<Rightarrow> newPosition h board currentPlayer t
                 | Some p \<Rightarrow> p)
      in AList.update h (pos\<lparr>pos_lastSeen := now t, pos_popularity := pos_popularity pos + 1\<rparr>) ps)"

definition newGame :: "tick \<Rightarrow> game" where
  "newGame t =
     \<lparr>game_id = ''game_'' @ showNat (now t) @ ''_'' @ rnd t, game_startTime = now t,
      game_endTime = None, game_positions = [], game_moves = [], game_result = None,
      game_players = [(''white'', ''human''), (''black'', ''computer'')]\<rparr>"

definition startGame :: "tick \<Rightarrow> learner \<Rightarrow> game \<times> learner" where
  "startGame t s = (newGame t, s\<lparr>currentGame := Some (newGame t)\<rparr>)"

text \<open>
  \<^verbatim>\<open>recordPosition\<close>: starts a game when none is in progress; a \<^verbatim>\<open>TypeError\<close> of
  \<^verbatim>\<open>hashPosition\<close> leaves the learner as it is then. The move is pushed when it is
  truthy: neither \<^verbatim>\<open>null\<close> nor the empty string.
\<close>

definition recordPosition ::
  "board \<Rightarrow> string \<Rightarrow> string option \<Rightarrow> tick \<Rightarrow> learner \<Rightarrow> (error + string) \<times> learner"
where
  "recordPosition board currentPlayer mv t s =
     (let g = (case currentGame s of None \<Rightarrow> newGame t | Some g0 \<Rightarrow> g0)
      in case hashPosition board currentPlayer of
           Inl e \<Rightarrow> (Inl e, s\<lparr>currentGame := Some g\<rparr>)
         | Inr h \<Rightarrow>
             (let g1 = g\<lparr>game_positions := game_positions g
                          @ [\<lparr>ent_hash = h, ent_move = mv, ent_player = currentPlayer,
                               ent_timestamp = now t\<rparr>]\<rparr>;
                  g2 = (case mv of
                          None \<Rightarrow> g1
                        | Some m \<Rightarrow> if m = [] then g1 else g1\<lparr>game_moves := game_moves g1 @ [m]\<rparr>)
              in (Inr h,
                  s\<lparr>db := (db s)\<lparr>db_positions :=
                          updatePositionStats h board currentPlayer t (db_positions (db s))\<rparr>,
                    currentGame := Some g2\<rparr>)))"

subsection \<open>Folding a finished game\<close>

definition bumpOutcome :: "string \<Rightarrow> outcomes \<Rightarrow> outcomes" where
  "bumpOutcome result out =
     (if result = ''white'' then out\<lparr>out_white := out_white out + 1\<rparr>
      else if result = ''black'' then out\<lparr>out_black := out_black out + 1\<rparr>
      else if result = ''draw'' then out\<lparr>out_draw := out_draw out + 1\<rparr>
      else out)"

text \<open>The statistics of one move after a game with this result, played by this player.\<close>

definition bumpMove :: "string \<Rightarrow> string \<Rightarrow> moveStats \<Rightarrow> moveStats" where
  "bumpMove result player st =
     (let st1 = st\<lparr>ms_played := ms_played st + 1\<rparr>
      in if result = player then st1\<lparr>ms_wins := ms_wins st1 + 1\<rparr>
         else if result = ''draw'' then st1\<lparr>ms_draws := ms_draws st1 + 1\<rparr>
         else st1\<lparr>ms_losses := ms_losses st1 + 1\<rparr>)"

text \<open>
  The body of the callback of \<^verbatim>\<open>updateGamePositions\<close> on a position record that
  exists. The guard of the move statistics is
  \<^verbatim>\<open>pos.move && position.moves[pos.move]\<close>: the statistics of a move are touched only
  when the position already has an entry for it (the initialisation inside the guarded
  block is unreachable).
\<close>

definition applyResult :: "entry \<Rightarrow> string \<Rightarrow> position \<Rightarrow> position" where
  "applyResult e result p =
     (let p1 = p\<lparr>pos_outcomes := bumpOutcome result (pos_outcomes p)\<rparr>;
          p2 = p1\<lparr>pos_totalGames := pos_totalGames p1 + 1\<rparr>
      in case ent_move e of
           None \<Rightarrow> p2
         | Some m \<Rightarrow>
             (if m = [] then p2
              else case map_of (pos_moves p2) m of
                     None \<Rightarrow> p2
                   | Some moveStats \<Rightarrow>
                       p2\<lparr>pos_moves :=
                            AList.update m (bumpMove result (ent_player e) moveStats)
                              (pos_moves p2)\<rparr>))"

text \<open>The loop of \<^verbatim>\<open>updateGamePositions\<close> with its set \<^verbatim>\<open>seenHashes\<close>.\<close>

fun foldPositions ::
  "entry list \<Rightarrow> string set \<Rightarrow> string \<Rightarrow> (string \<times> position) list \<Rightarrow> (string \<times> position) list"
where
  "foldPositions [] seenHashes result ps = ps"
| "foldPositions (e # es) seenHashes result ps =
     (if ent_hash e \<in> seenHashes then foldPositions es seenHashes result ps
      else case map_of ps (ent_hash e) of
             None \<Rightarrow> foldPositions es (insert (ent_hash e) seenHashes) result ps
           | Some p \<Rightarrow>
               foldPositions es (insert (ent_hash e) seenHashes) result
                 (AList.update (ent_hash e) (applyResult e result p) ps))"

text \<open>
  The names that every object inherits from \<^verbatim>\<open>Object.prototype\<close>. A lookup
  \<^verbatim>\<open>obj[name]\<close> of such a name on an object without that property of its own gives a
  function, or the prototype itself for \<^verbatim>\<open>__proto__\<close>: a truthy value. A property that the
  learner has added to the prototype has the value NaN, which is falsy: such a lookup
  goes the way of a missing property.
\<close>

definition builtinNames :: "string list" where
  "builtinNames =
     [''constructor'', ''__defineGetter__'', ''__defineSetter__'', ''hasOwnProperty'',
      ''__lookupGetter__'', ''__lookupSetter__'', ''isPrototypeOf'', ''propertyIsEnumerable'',
      ''toString'', ''valueOf'', ''__proto__'', ''toLocaleString'']"

definition addProps :: "string list \<Rightarrow> string list \<Rightarrow> string list" where
  "addProps names proto = foldl (\<lambda>acc n. if n \<in> set acc then acc else acc @ [n]) proto names"

text \<open>
  What the callback of \<^verbatim>\<open>updateGamePositions\<close> does outside the position record. For a
  move named \<^verbatim>\<open>__proto__\<close> without an entry of its own, \<^verbatim>\<open>position.moves[pos.move]\<close> is
  \<^verbatim>\<open>Object.prototype\<close>, the guard holds, and the increments of \<^verbatim>\<open>played\<close> and of one
  of \<^verbatim>\<open>wins\<close>, \<^verbatim>\<open>draws\<close>, \<^verbatim>\<open>losses\<close> create these properties on the prototype. For
  any other inherited name the increments go to a function object, where nothing reads
  them.
\<close>

definition movePollution :: "entry \<Rightarrow> string \<Rightarrow> position \<Rightarrow> string list" where
  "movePollution e result p =
     (if ent_move e = Some ''__proto__'' \<and> map_of (pos_moves p) ''__proto__'' = None
      then [''played'',
            if result = ent_player e then ''wins''
            else if result = ''draw'' then ''draws'' else ''losses'']
      else [])"

text \<open>The same loop as \<open>foldPositions\<close>, for the properties of the prototype.\<close>

fun foldProto ::
  "entry list \<Rightarrow> string set \<Rightarrow> string \<Rightarrow> (string \<times> position) list \<Rightarrow> string list \<Rightarrow> string list"
where
  "foldProto [] seenHashes result ps proto = proto"
| "foldProto (e # es) seenHashes result ps proto =
     (if ent_hash e \<in> seenHashes then foldProto es seenHashes result ps proto
      else case map_of ps (ent_hash e) of
             None \<Rightarrow> foldProto es (insert (ent_hash e) seenHashes) result ps proto
           | Some p \<Rightarrow>
               foldProto es (insert (ent_hash e) seenHashes) result
                 (AList.update (ent_hash e) (applyResult e result p) ps)
                 (addProps (movePollution e result p) proto))"

definition updateGamePositions ::
  "game \<Rightarrow> string \<Rightarrow> (string \<times> position) list \<Rightarrow> (string \<times> position) list"
where
  "updateGamePositions g result ps = foldPositions (game_positions g) {} result ps"

definition endGame :: "string \<Rightarrow> tick \<Rightarrow> learner \<Rightarrow> game option \<times> learner" where
  "endGame result t s =
     (case currentGame s of
        None \<Rightarrow> (None, s)
      | Some g \<Rightarrow>
          (let g' = g\<lparr>game_result := Some result, game_endTime := Some (now t)\<rparr>;
               d = db s;
               d1 = d\<lparr>db_games := db_games d @ [g'],
                      db_metadata := (db_metadata d)
                        \<lparr>meta_totalGames := meta_totalGames (db_metadata d) + 1\<rparr>\<rparr>;
               d2 = d1\<lparr>db_positions := updateGamePositions g' result (db_positions d1)\<rparr>
           in (Some g',
               snd (saveDatabase t
                 \<lparr>db = d2, currentGame = None,
                  objectProto =
                    foldProto (game_positions g') {} result (db_positions d1) (objectProto s)\<rparr>))))"

definition reset :: "tick \<Rightarrow> learner \<Rightarrow> learner" where
  "reset t s = snd (saveDatabase t (s\<lparr>db := emptyDatabase (now t)\<rparr>))"

subsection \<open>Sequences of operations\<close>

datatype operation =
  StartGame tick
| RecordPosition board string "string option" tick
| EndGame string tick
| Reset tick

fun step :: "learner \<Rightarrow> operation \<Rightarrow> learner" where
  "step s (StartGame t) = snd (startGame t s)"
| "step s (RecordPosition board currentPlayer mv t) = snd (recordPosition board currentPlayer mv t s)"
| "step s (EndGame result t) = snd (endGame result t s)"
| "step s (Reset t) = reset t s"

definition run :: "learner \<Rightarrow> operation list \<Rightarrow> learner" where
  "run s ops = foldl step s ops"

text \<open>
  The record of a hash, and its \<^verbatim>\<open>totalGames\<close> and \<^verbatim>\<open>popularity\<close> (0 while the hash has
  no record).
\<close>

definition getPositionStats :: "learner \<Rightarrow> string \<Rightarrow> position option" where
  "getPositionStats s h = map_of (db_positions (db s)) h"

definition totalGamesOf :: "learner \<Rightarrow> string \<Rightarrow> nat" where
  "totalGamesOf s h = (case getPositionStats s h of None \<Rightarrow> 0 | Some p \<Rightarrow> pos_totalGames p)"

definition popularityOf :: "learner \<Rightarrow> string \<Rightarrow> nat" where
  "popularityOf s h = (case getPositionStats s h of None \<Rightarrow> 0 | Some p \<Rightarrow> pos_popularity p)"

section \<open>Import of a database\<close>

text \<open>
  \<^verbatim>\<open>importDatabase\<close> assigns whatever \<^verbatim>\<open>JSON.parse\<close> returns to \<^verbatim>\<open>this.db\<close>, so at this
  point the database is an arbitrary JSON value and not a record of the shape above.
  An object is the list of its properties in creation order; a number is a rational
  (every finite double is one).
\<close>

datatype json =
  JNull
| JBool bool
| JNum rat
| JStr string
| JArr "json list"
| JObj "(string \<times> json) list"

text \<open>
  The built-ins of the platform that the import uses: \<^verbatim>\<open>JSON.parse\<close> (\<open>None\<close> when it
  raises a \<^verbatim>\<open>SyntaxError\<close>) and the text that \<^verbatim>\<open>new Date().toISOString()\<close> gives at
  a time.
\<close>

record platform =
  jsonParse :: "string \<Rightarrow> json option"
  toISOString :: "time \<Rightarrow> string"

text \<open>
  The assignment \<^verbatim>\<open>this.db.metadata.lastUpdated = ...\<close> on a JSON value; \<open>None\<close> when it
  raises a \<^verbatim>\<open>TypeError\<close>: \<^verbatim>\<open>this.db\<close> is \<^verbatim>\<open>null\<close>, or it has no \<^verbatim>\<open>metadata\<close>
  (a primitive, an array, an object without that property), or \<^verbatim>\<open>metadata\<close> is
  \<^verbatim>\<open>null\<close> or a primitive (class bodies are strict code). On an array the assignment
  succeeds and sets a named property of the array object, which is no part of its
  JSON value and is not represented.
\<close>

definition stampLastUpdated :: "string \<Rightarrow> json \<Rightarrow> json option" where
  "stampLastUpdated stamp d =
     (case d of
        JObj props \<Rightarrow>
          (case map_of props ''metadata'' of
             Some (JObj mprops) \<Rightarrow>
               Some (JObj (AList.update ''metadata''
                             (JObj (AList.update ''lastUpdated'' (JStr stamp) mprops)) props))
           | Some (JArr xs) \<Rightarrow> Some d
           | _ \<Rightarrow> None)
      | _ \<Rightarrow> None)"

text \<open>
  \<^verbatim>\<open>saveDatabase\<close> on a JSON value: its \<^verbatim>\<open>try\<close> block stamps the database and writes
  it to the storage backend, its \<^verbatim>\<open>catch\<close> returns \<^verbatim>\<open>false\<close>.
\<close>

definition saveDatabaseDoc :: "platform \<Rightarrow> tick \<Rightarrow> json \<Rightarrow> bool \<times> json" where
  "saveDatabaseDoc pf t d =
     (case stampLastUpdated (toISOString pf (now t)) d of
        None \<Rightarrow> (False, d)
      | Some d' \<Rightarrow> (quotaOk t, d'))"

text \<open>\<^verbatim>\<open>importDatabase\<close>: the result and the database after the call.\<close>

definition importDatabase :: "platform \<Rightarrow> tick \<Rightarrow> string \<Rightarrow> json \<Rightarrow> bool \<times> json" where
  "importDatabase pf t jsonData d =
     (case jsonParse pf jsonData of
        None \<Rightarrow> (False, d)
      | Some v \<Rightarrow> (True, snd (saveDatabaseDoc pf t v)))"

section \<open>Analysis functions\<close>

subsection \<open>Move suggestions of the main module\<close>

record suggestion =
  sug_move :: string
  sug_winRate :: double
  sug_played :: nat
  sug_stats :: moveStats

text \<open>
  The rate of one move for the queried colour (\<open>None\<close> is the default \<^verbatim>\<open>null\<close>): a
  division of two counters, which is NaN for \<open>0 / 0\<close> and infinite for any other
  division by zero.
\<close>

definition winRateOf :: "string option \<Rightarrow> moveStats \<Rightarrow> double" where
  "winRateOf col stats =
     (if col = Some ''black'' then ddiv (ofCount (ms_losses stats)) (ofCount (ms_played stats))
      else ddiv (ofCount (ms_wins stats)) (ofCount (ms_played stats)))"

definition toSuggestion :: "string option \<Rightarrow> string \<times> moveStats \<Rightarrow> suggestion" where
  "toSuggestion col entry =
     \<lparr>sug_move = fst entry, sug_winRate = winRateOf col (snd entry),
      sug_played = ms_played (snd entry), sug_stats = snd entry\<rparr>"

text \<open>
  \<^verbatim>\<open>getMoveSuggestions\<close>. For a hash without a record, \<^verbatim>\<open>this.db.positions[hash]\<close> is a
  built-in of \<^verbatim>\<open>Object.prototype\<close> when the hash names one, and \<^verbatim>\<open>Object.entries\<close> of
  its missing \<^verbatim>\<open>moves\<close> raises a \<^verbatim>\<open>TypeError\<close>; it is \<^verbatim>\<open>undefined\<close> or NaN otherwise, and
  the result is the empty array.
\<close>

definition getMoveSuggestions ::
  "string \<Rightarrow> string option \<Rightarrow> learner \<Rightarrow> suggestion list result"
where
  "getMoveSuggestions h col s =
     (case map_of (db_positions (db s)) h of
        Some pos \<Rightarrow>
          sortResult (jsSortDesc sug_winRate (map (toSuggestion col) (ownEntries (pos_moves pos))))
      | None \<Rightarrow> if h \<in> set builtinNames then Throws TypeError else Returns [])"

subsection \<open>Inconsistencies\<close>

record inconsistency =
  inc_hash :: string
  inc_fen :: string
  inc_expected :: double
  inc_actual :: double
  inc_games :: nat
  inc_patterns :: "string list"
  inc_deviation :: double

text \<open>The entry that the loop of \<^verbatim>\<open>findInconsistencies\<close> pushes for a position.\<close>

definition actualOf :: "position \<Rightarrow> double" where
  "actualOf pos = ddiv (ofCount (out_white (pos_outcomes pos))) (ofCount (pos_totalGames pos))"

definition reportOf :: "string \<times> position \<Rightarrow> inconsistency" where
  "reportOf kv =
     \<lparr>inc_hash = fst kv, inc_fen = pos_fen (snd kv), inc_expected = Finite (1 / 2),
      inc_actual = actualOf (snd kv), inc_games = pos_totalGames (snd kv),
      inc_patterns = pos_patterns (snd kv),
      inc_deviation = dsub (actualOf (snd kv)) (Finite (1 / 2))\<rparr>"

text \<open>The two tests of the loop: the gate on the number of games and the threshold.\<close>

definition inconsistent :: "double \<Rightarrow> string \<times> position \<Rightarrow> bool" where
  "inconsistent threshold kv =
     (\<not> pos_totalGames (snd kv) < 5 \<and>
      dgt (dabs (dsub (actualOf (snd kv)) (Finite (1 / 2)))) threshold)"

text \<open>
  \<^verbatim>\<open>findInconsistencies\<close>. The loop \<^verbatim>\<open>for (let hash in this.db.positions)\<close> visits the own
  keys and then the enumerable properties of \<^verbatim>\<open>Object.prototype\<close> that no own key
  shadows. The value of such a property is NaN: \<^verbatim>\<open>pos.totalGames\<close> is \<^verbatim>\<open>undefined\<close>, the
  gate \<^verbatim>\<open>undefined < 5\<close> is false, and \<^verbatim>\<open>pos.outcomes.white\<close> raises a \<^verbatim>\<open>TypeError\<close>. The keys
  of the sort are absolute deviations that passed the threshold test, none of them NaN.
\<close>

definition findInconsistencies :: "double \<Rightarrow> learner \<Rightarrow> inconsistency list result" where
  "findInconsistencies threshold s =
     (if list_all (\<lambda>name. name \<in> set (map fst (db_positions (db s)))) (objectProto s)
      then sortResult (jsSortDesc (\<lambda>i. dabs (inc_deviation i))
             (map reportOf (filter (inconsistent threshold) (ownEntries (db_positions (db s))))))
      else Throws TypeError)"

subsection \<open>Opening tree\<close>

record openingLine =
  op_moves :: "string list"
  op_games :: nat
  op_wins :: nat
  op_losses :: nat
  op_draws :: nat

text \<open>
  The separator of the key, as the bytes of the source file: a space, the three
  characters that the file has for the arrow, a space.
\<close>

definition arrow :: string where
  "arrow = [CHR 0x20, CHR 0xC3, CHR 0xA2, CHR 0xE2, CHR 0x80, CHR 0xA0, CHR 0xE2, CHR 0x80,
            CHR 0x99, CHR 0x20]"

definition openingKey :: "int \<Rightarrow> game \<Rightarrow> string" where
  "openingKey depth g = join arrow (slice0 (game_moves g) depth)"

definition countGame :: "game \<Rightarrow> openingLine \<Rightarrow> openingLine" where
  "countGame g o1 =
     (let o2 = o1\<lparr>op_games := op_games o1 + 1\<rparr>
      in if game_result g = Some ''white'' then o2\<lparr>op_wins := op_wins o2 + 1\<rparr>
         else if game_result g = Some ''black'' then o2\<lparr>op_losses := op_losses o2 + 1\<rparr>
         else o2\<lparr>op_draws := op_draws o2 + 1\<rparr>)"

definition freshOpening :: "int \<Rightarrow> game \<Rightarrow> openingLine" where
  "freshOpening depth g =
     \<lparr>op_moves = slice0 (game_moves g) depth, op_games = 0, op_wins = 0, op_losses = 0,
      op_draws = 0\<rparr>"

text \<open>
  The properties that the four increments create on \<^verbatim>\<open>Object.prototype\<close> when the key is
  \<^verbatim>\<open>__proto__\<close> and \<^verbatim>\<open>openings\<close> has no entry of its own under it.
\<close>

definition keyPollution :: "game \<Rightarrow> string list" where
  "keyPollution g =
     [''games'',
      if game_result g = Some ''white'' then ''wins''
      else if game_result g = Some ''black'' then ''losses'' else ''draws'']"

text \<open>
  The callback of the loop over \<^verbatim>\<open>db.games\<close>, on the dictionary \<^verbatim>\<open>openings\<close> and the
  properties of the prototype. The test \<^verbatim>\<open>!openings[key]\<close> looks the key up through
  the prototype chain: for a key that names a built-in of \<^verbatim>\<open>Object.prototype\<close> it finds
  a function (or the prototype itself), creates no entry, and the increments go to
  that object.
\<close>

definition addGame ::
  "int \<Rightarrow> (string \<times> openingLine) list \<times> string list \<Rightarrow> game
     \<Rightarrow> (string \<times> openingLine) list \<times> string list"
where
  "addGame depth acc g =
     (if int (length (game_moves g)) < depth then acc
      else case map_of (fst acc) (openingKey depth g) of
             Some o0 \<Rightarrow> (AList.update (openingKey depth g) (countGame g o0) (fst acc), snd acc)
           | None \<Rightarrow>
               if openingKey depth g = ''__proto__''
               then (fst acc, addProps (keyPollution g) (snd acc))
               else if openingKey depth g \<in> set builtinNames then acc
               else (AList.update (openingKey depth g) (countGame g (freshOpening depth g))
                       (fst acc), snd acc))"

definition openingsOf :: "int \<Rightarrow> learner \<Rightarrow> (string \<times> openingLine) list \<times> string list" where
  "openingsOf depth s = foldl (addGame depth) ([], objectProto s) (db_games (db s))"

text \<open>
  \<^verbatim>\<open>getOpeningTree\<close>: the returned array, and the learner with the properties of the
  prototype after the call. The keys of the sort are counters.
\<close>

definition getOpeningTree :: "int \<Rightarrow> learner \<Rightarrow> openingLine list result \<times> learner" where
  "getOpeningTree depth s =
     (sortResult (map_option (\<lambda>sorted. slice0 sorted 20)
        (jsSortDesc (\<lambda>o1. ofCount (op_games o1))
           (map snd (ownEntries (fst (openingsOf depth s)))))),
      s\<lparr>objectProto := snd (openingsOf depth s)\<rparr>)"

section \<open>The older learner (\<^verbatim>\<open>learn.js\<close>)\<close>

text \<open>
  Its database keeps the positions in a list; of a position record the model keeps the
  two fields that \<^verbatim>\<open>suggestMove\<close> reads.
\<close>

record lposition =
  lp_hash :: string
  lp_moves :: "(string \<times> moveStats) list"

text \<open>
  \<^verbatim>\<open>piece.color[0] + piece.pieceType[0]\<close>: the first character of a string, or
  \<^verbatim>\<open>undefined\<close> for the empty string; \<^verbatim>\<open>undefined + undefined\<close> is \<^verbatim>\<open>NaN\<close>.
\<close>

definition firstChars :: "string \<Rightarrow> string \<Rightarrow> string" where
  "firstChars col kind =
     (case (col, kind) of
        (c # _, k # _) \<Rightarrow> [c, k]
      | (c # _, []) \<Rightarrow> c # ''undefined''
      | ([], k # _) \<Rightarrow> ''undefined'' @ [k]
      | ([], []) \<Rightarrow> ''NaN'')"

fun lrowPlacement :: "piece option list \<Rightarrow> nat \<Rightarrow> string" where
  "lrowPlacement [] emptyN = (if emptyN > 0 then showNat emptyN else [])"
| "lrowPlacement (None # cs) emptyN = lrowPlacement cs (emptyN + 1)"
| "lrowPlacement (Some p # cs) emptyN =
     (if emptyN > 0 then showNat emptyN else [])
     @ firstChars (color p) (pieceType p)
     @ lrowPlacement cs 0"

definition lhashPosition :: "board \<Rightarrow> error + string" where
  "lhashPosition board =
     (if length board < 8 then Inl TypeError
      else Inr (take 8 (btoa (concat
             (map (\<lambda>r. lrowPlacement (rowCells (board ! r)) 0 @ (if r < 7 then ''/'' else []))
                [0..<8])))))"

record scored =
  sc_move :: string
  sc_score :: double
  sc_played :: nat

text \<open>\<^verbatim>\<open>0.1 * (1 - stats.played / 20)\<close>; the literal \<^verbatim>\<open>0.1\<close> is the double nearest to \<open>1/10\<close>.\<close>

definition exploration :: "moveStats \<Rightarrow> double" where
  "exploration stats =
     dmul (roundD (1 / 10)) (dsub (Finite 1) (ddiv (ofCount (ms_played stats)) (Finite 20)))"

definition scoreMove :: "string \<Rightarrow> string \<times> moveStats \<Rightarrow> scored" where
  "scoreMove col entry =
     \<lparr>sc_move = fst entry,
      sc_score = dadd (winRateOf (Some col) (snd entry)) (exploration (snd entry)),
      sc_played = ms_played (snd entry)\<rparr>"

text \<open>
  The array \<^verbatim>\<open>scored\<close> of \<^verbatim>\<open>suggestMove\<close> after its sort (\<open>None\<close> where the order is left
  to the implementation).
\<close>

definition scoredMoves :: "string \<Rightarrow> (string \<times> moveStats) list \<Rightarrow> scored list option" where
  "scoredMoves col moves = jsSortDesc sc_score (map (scoreMove col) (ownEntries moves))"

text \<open>
  \<^verbatim>\<open>suggestMove\<close>: \<open>None\<close> is \<^verbatim>\<open>null\<close>, the result is the first element of the sorted
  array.
\<close>

definition suggestMove :: "board \<Rightarrow> string \<Rightarrow> lposition list \<Rightarrow> scored option result" where
  "suggestMove board col positions =
     (case lhashPosition board of
        Inl e \<Rightarrow> Throws e
      | Inr h \<Rightarrow>
          (case find (\<lambda>p. lp_hash p = h) positions of
             None \<Rightarrow> Returns None
           | Some pos \<Rightarrow>
               (if length (ownEntries (lp_moves pos)) = 0 then Returns None
                else case scoredMoves col (lp_moves pos) of
                       None \<Rightarrow> Unspecified
                     | Some [] \<Rightarrow> Returns None
                     | Some (best # _) \<Rightarrow> Returns (Some best))))"

section \<open>Notions of the properties, and sample data\<close>

text \<open>The results a completed game can have.\<close>

definition validResult :: "string \<Rightarrow> bool" where
  "validResult r = (r = ''white'' \<or> r = ''black'' \<or> r = ''draw'')"

fun completedFold :: "operation \<Rightarrow> bool" where
  "completedFold (EndGame result t) = validResult result"
| "completedFold _ = True"

definition outcomesSum :: "position \<Rightarrow> nat" where
  "outcomesSum p =
     out_white (pos_outcomes p) + out_black (pos_outcomes p) + out_draw (pos_outcomes p)"

definition sumInv :: "learner \<Rightarrow> bool" where
  "sumInv s = (\<forall>h p. getPositionStats s h = Some p \<longrightarrow> outcomesSum p = pos_totalGames p)"

text \<open>The hashes recorded in the game in progress.\<close>

definition gameHashes :: "learner \<Rightarrow> string set" where
  "gameHashes s =
     (case currentGame s of None \<Rightarrow> {} | Some g \<Rightarrow> ent_hash ` set (game_positions g))"

text \<open>
  The invariant behind \<open>popularity \<ge> totalGames\<close>: a position recorded in the game in
  progress has one recording that no finished game has counted yet.
\<close>

definition popInv :: "learner \<Rightarrow> bool" where
  "popInv s =
     (\<forall>h p. getPositionStats s h = Some p \<longrightarrow>
        pos_totalGames p + (if h \<in> gameHashes s then 1 else 0) \<le> pos_popularity p)"

text \<open>No position has statistics for any move.\<close>

definition noMoves :: "learner \<Rightarrow> bool" where
  "noMoves s = (\<forall>h p. getPositionStats s h = Some p \<longrightarrow> pos_moves p = [])"

definition is8x8 :: "board \<Rightarrow> bool" where
  "is8x8 board = (length board = 8 \<and> list_all (\<lambda>row. length row = 8) board)"

definition emptyBoard :: board where
  "emptyBoard = replicate 8 (replicate 8 None)"

text \<open>Black king on row 0, a white pawn on row 6, white king on row 7.\<close>

definition kingsBoard :: board where
  "kingsBoard =
     emptyBoard
       [0 := (replicate 8 None)
               [4 := Some \<lparr>color = ''black'', pieceType = ''king'', type_prop = None\<rparr>],
        6 := (replicate 8 None)
               [0 := Some \<lparr>color = ''white'', pieceType = ''pawn'', type_prop = None\<rparr>],
        7 := (replicate 8 None)
               [4 := Some \<lparr>color = ''white'', pieceType = ''king'', type_prop = None\<rparr>]]"

text \<open>A piece of an unknown kind in the second cell of row 0.\<close>

definition oddBoard :: board where
  "oddBoard =
     emptyBoard
       [0 := (replicate 8 None)
               [1 := Some \<lparr>color = ''white'', pieceType = ''wizard'', type_prop = None\<rparr>]]"

definition tickAt :: "nat \<Rightarrow> tick" where
  "tickAt n = \<lparr>now = n, rnd = ''k3x9q'', quotaOk = True\<rparr>"

text \<open>A position record with given \<open>totalGames\<close> and wins of white, the other games lost.\<close>

definition samplePosition :: "string \<Rightarrow> nat \<Rightarrow> nat \<Rightarrow> position" where
  "samplePosition h n whiteWins =
     \<lparr>pos_hash = h, pos_fen = ''8/8/8/8/8/8/8/8 w'', pos_firstSeen = 0, pos_lastSeen = 0,
      pos_totalGames = n,
      pos_outcomes = \<lparr>out_white = whiteWins, out_black = n - whiteWins, out_draw = 0\<rparr>,
      pos_moves = [], pos_patterns = [], pos_popularity = n\<rparr>"

text \<open>A store with five position records, one of them under a key that is an array index.\<close>

definition sampleStore :: learner where
  "sampleStore =
     \<lparr>db = (emptyDatabase 0)
        \<lparr>db_positions :=
           [(''hashA'', samplePosition ''hashA'' 4 4),
            (''hashB'', samplePosition ''hashB'' 10 9),
            (''hashC'', samplePosition ''hashC'' 10 5),
            (''hashD'', samplePosition ''hashD'' 10 1),
            (''7'', samplePosition ''7'' 5 0)]\<rparr>,
      currentGame = None, objectProto = []\<rparr>"

text \<open>Two positions of ten games: white won eight of the one and two of the other.\<close>

definition skewStore :: learner where
  "skewStore =
     \<lparr>db = (emptyDatabase 0)
        \<lparr>db_positions :=
           [(''hashE'', samplePosition ''hashE'' 10 8),
            (''hashF'', samplePosition ''hashF'' 10 2)]\<rparr>,
      currentGame = None, objectProto = []\<rparr>"

text \<open>Two positions of ten games: white won seven of the one and three of the other.\<close>

definition nearStore :: learner where
  "nearStore =
     \<lparr>db = (emptyDatabase 0)
        \<lparr>db_positions :=
           [(''hashG'', samplePosition ''hashG'' 10 7),
            (''hashH'', samplePosition ''hashH'' 10 3)]\<rparr>,
      currentGame = None, objectProto = []\<rparr>"

text \<open>
  The test of the inconsistency in the words of the specification, on exact numbers:
  at least 5 games and \<open>|outcomes.white / totalGames - 0.5| > threshold\<close>.
\<close>

definition specInconsistent :: "rat \<Rightarrow> position \<Rightarrow> bool" where
  "specInconsistent threshold pos =
     (5 \<le> pos_totalGames pos \<and>
      \<bar>of_nat (out_white (pos_outcomes pos)) / of_nat (pos_totalGames pos) - 1 / 2\<bar> > threshold)"

text \<open>
  \<open>rankedBy key input output\<close>: the output is the input sorted by descending key, with
  ties kept in input order.
\<close>

definition rankedBy :: "('a \<Rightarrow> double) \<Rightarrow> 'a list \<Rightarrow> 'a list \<Rightarrow> bool" where
  "rankedBy key input output =
     (mset output = mset input \<and>
      sorted_wrt (\<lambda>a b. dle (key b) (key a)) output \<and>
      (\<forall>c. filter (\<lambda>x. key x = c) output = filter (\<lambda>x. key x = c) input))"

text \<open>
  The score and the ranking in the words of the specification, in the arithmetic of
  the source: the rate plus the bonus \<open>k * max(0, 1 - played / threshold)\<close> with
  \<open>k = 0.1\<close> and \<open>threshold = 20\<close>, moves sorted by descending score with ties in
  input order. \<open>dmax\<close> is \<^verbatim>\<open>Math.max\<close>.
\<close>

definition dmax :: "double \<Rightarrow> double \<Rightarrow> double" where
  "dmax a b = (if a = NaN \<or> b = NaN then NaN else if dgt a b then a else b)"

definition specScore :: "string option \<Rightarrow> moveStats \<Rightarrow> double" where
  "specScore col stats =
     dadd (winRateOf col stats)
       (dmul (roundD (1 / 10))
          (dmax (Finite 0) (dsub (Finite 1) (ddiv (ofCount (ms_played stats)) (Finite 20)))))"

definition specRanking ::
  "string option \<Rightarrow> (string \<times> moveStats) list \<Rightarrow> string list option"
where
  "specRanking col moves =
     map_option (map fst) (jsSortDesc (\<lambda>kv. specScore col (snd kv)) (ownEntries moves))"

text \<open>Sample move statistics: played, wins, losses; the remaining games are draws.\<close>

definition statsOf :: "nat \<Rightarrow> nat \<Rightarrow> nat \<Rightarrow> moveStats" where
  "statsOf n w l = \<lparr>ms_played = n, ms_wins = w, ms_losses = l, ms_draws = n - w - l\<rparr>"

definition veteranMoves :: "(string \<times> moveStats) list" where
  "veteranMoves = [(''Nf3'', statsOf 40 20 20), (''e4'', statsOf 20 9 11)]"

definition tiedMoves :: "(string \<times> moveStats) list" where
  "tiedMoves = [(''Nf3'', statsOf 10 8 2), (''e4'', statsOf 5 4 1)]"

text \<open>Three moves, the first of them with an entry and no play.\<close>

definition unplayedMoves :: "(string \<times> moveStats) list" where
  "unplayedMoves = [(''a3'', statsOf 0 0 0), (''Nf3'', statsOf 10 8 2), (''e4'', statsOf 10 9 1)]"

text \<open>A database of the older learner, and a store of the main module.\<close>

definition oldStore :: "lposition list" where
  "oldStore = [\<lparr>lp_hash = ''OC84Lzgv'', lp_moves = []\<rparr>,
               \<lparr>lp_hash = ''NGJrMy84'', lp_moves = veteranMoves\<rparr>]"

definition suggestStore :: learner where
  "suggestStore =
     \<lparr>db = (emptyDatabase 0)
        \<lparr>db_positions := [(''NGJrMy84'', (samplePosition ''NGJrMy84'' 15 12)\<lparr>pos_moves := tiedMoves\<rparr>)]\<rparr>,
      currentGame = None, objectProto = []\<rparr>"

definition unplayedStore :: learner where
  "unplayedStore =
     \<lparr>db = (emptyDatabase 0)
        \<lparr>db_positions :=
           [(''NGJrMy84'', (samplePosition ''NGJrMy84'' 15 12)\<lparr>pos_moves := unplayedMoves\<rparr>)]\<rparr>,
      currentGame = None, objectProto = []\<rparr>"

text \<open>
  The games that the opening tree counts under one key: at least \<open>n\<close> moves, and the
  first \<open>n\<close> moves joined with the separator give the key. \<open>gamesWithPrefix\<close> follows
  the words of the specification instead: the games whose first \<open>n\<close> moves are the given
  sequence. \<open>tallyOf\<close> is the entry that counts a list of games.
\<close>

definition lineGames :: "nat \<Rightarrow> string \<Rightarrow> game list \<Rightarrow> game list" where
  "lineGames n key games =
     filter (\<lambda>g. n \<le> length (game_moves g) \<and> join arrow (take n (game_moves g)) = key) games"

definition gamesWithPrefix :: "nat \<Rightarrow> string list \<Rightarrow> game list \<Rightarrow> game list" where
  "gamesWithPrefix n prefix games =
     filter (\<lambda>g. n \<le> length (game_moves g) \<and> take n (game_moves g) = prefix) games"

definition tallyOf :: "string list \<Rightarrow> game list \<Rightarrow> openingLine" where
  "tallyOf prefix gs =
     \<lparr>op_moves = prefix, op_games = length gs,
      op_wins = length (filter (\<lambda>g. game_result g = Some ''white'') gs),
      op_losses = length (filter (\<lambda>g. game_result g = Some ''black'') gs),
      op_draws = length (filter (\<lambda>g. game_result g \<noteq> Some ''white'' \<and> game_result g \<noteq> Some ''black'') gs)\<rparr>"

definition finishedGame :: "string list \<Rightarrow> string \<Rightarrow> game" where
  "finishedGame mvs res =
     \<lparr>game_id = ''game_0_k3x9q'', game_startTime = 0, game_endTime = Some 1,
      game_positions = [], game_moves = mvs, game_result = Some res,
      game_players = [(''white'', ''human''), (''black'', ''computer'')]\<rparr>"

definition storeOf :: "game list \<Rightarrow> learner" where
  "storeOf gs =
     \<lparr>db = \<lparr>db_positions = [], db_games = gs, db_patterns = [],
             db_metadata = \<lparr>meta_version = ''1.0'', meta_lastUpdated = 1,
                            meta_totalGames = length gs\<rparr>\<rparr>,
      currentGame = None, objectProto = []\<rparr>"

text \<open>Four games: two open with e4 e5, one with d4 d5, one has a single move.\<close>

definition openingStore :: learner where
  "openingStore =
     storeOf [finishedGame [''e4'', ''e5'', ''Nf3''] ''white'',
              finishedGame [''d4'', ''d5'', ''c4''] ''draw'',
              finishedGame [''e4'', ''e5'', ''Nc3''] ''black'',
              finishedGame [''e4''] ''white'']"

text \<open>Two games whose first two moves differ and join to the same key.\<close>

definition collidingStore :: learner where
  "collidingStore =
     storeOf [finishedGame [''e4'' @ arrow @ ''e5'', ''Nf3''] ''white'',
              finishedGame [''e4'', ''e5'' @ arrow @ ''Nf3''] ''black'']"

text \<open>
  A game whose only move has the name of a built-in of \<^verbatim>\<open>Object.prototype\<close>, and a
  game whose only move is \<^verbatim>\<open>__proto__\<close>.
\<close>

definition builtinStore :: learner where
  "builtinStore =
     storeOf [finishedGame [''constructor''] ''white'', finishedGame [''e4''] ''black'']"

definition protoStore :: learner where
  "protoStore = storeOf [finishedGame [''__proto__''] ''white'']"


definition quoted :: "string \<Rightarrow> string" where
  "quoted s = [CHR 0x22] @ s @ [CHR 0x22]"

text \<open>A document with a \<^verbatim>\<open>metadata.lastUpdated\<close> of its own, as text and as value.\<close>

definition staleText :: string where
  "staleText =
     ''{'' @ quoted ''metadata'' @ '':{'' @ quoted ''lastUpdated'' @ '':'' @ quoted ''2020''
     @ ''}}''"

definition staleValue :: json where
  "staleValue = JObj [(''metadata'', JObj [(''lastUpdated'', JStr ''2020'')])]"

text \<open>
  A sample platform: its parser knows four documents and rejects every other text, its
  clock text is the number of the time after \<^verbatim>\<open>T+\<close>.
\<close>

definition samplePlatform :: platform where
  "samplePlatform =
     \<lparr>jsonParse = map_of [(''null'', JNull), (''42'', JNum 42), (''{}'', JObj []),
                          (staleText, staleValue)],
      toISOString = (\<lambda>t. ''T+'' @ showNat t)\<rparr>"

text \<open>One game that records the same position twice and ends as a win of white.\<close>

definition repeatedGame :: "operation list" where
  "repeatedGame =
     [RecordPosition kingsBoard ''white'' (Some ''e4'') (tickAt 1),
      RecordPosition kingsBoard ''white'' (Some ''e5'') (tickAt 2),
      EndGame ''white'' (tickAt 3)]"

text \<open>One game of a single recorded move, won by the player who made it.\<close>

definition singleMoveGame :: "operation list" where
  "singleMoveGame =
     [RecordPosition kingsBoard ''white'' (Some ''e4'') (tickAt 1),
      EndGame ''white'' (tickAt 2)]"

text \<open>One game of a single recorded move with the name \<^verbatim>\<open>__proto__\<close>.\<close>

definition protoGame :: "operation list" where
  "protoGame =
     [RecordPosition kingsBoard ''white'' (Some ''__proto__'') (tickAt 1),
      EndGame ''white'' (tickAt 2)]"

section \<open>Properties of the position hash\<close>

lemma b64alphabet_length: "length b64alphabet = 64"
  by (simp add: b64alphabet_def)

lemma b64alphabet_set: "set b64alphabet = alnum \<union> {CHR ''+'', CHR ''/''}"
  by (simp add: b64alphabet_def alnum_def insert_commute)

lemma b64char_in: "i < 64 \<Longrightarrow> b64char i \<in> alnum \<union> {CHR ''+'', CHR ''/''}"
  unfolding b64char_def b64alphabet_set [symmetric]
  by (rule nth_mem) (simp add: b64alphabet_length)

lemma b64groups_chars:
  "\<forall>x \<in> set bs. x < 256 \<Longrightarrow> set (b64groups bs) \<subseteq> alnum \<union> {CHR ''+'', CHR ''/'', CHR ''=''}"
proof (induction bs rule: b64groups.induct)
  case (1 a b c rest)
  have "a div 4 < 64" "(a mod 4) * 16 + b div 16 < 64" "(b mod 16) * 4 + c div 64 < 64"
    "c mod 64 < 64"
    using "1.prems" by (auto simp: less_mult_imp_div_less)
  then have "b64char (a div 4) \<in> alnum \<union> {CHR ''+'', CHR ''/''}"
    "b64char ((a mod 4) * 16 + b div 16) \<in> alnum \<union> {CHR ''+'', CHR ''/''}"
    "b64char ((b mod 16) * 4 + c div 64) \<in> alnum \<union> {CHR ''+'', CHR ''/''}"
    "b64char (c mod 64) \<in> alnum \<union> {CHR ''+'', CHR ''/''}"
    by (simp_all only: b64char_in)
  moreover have "set (b64groups rest) \<subseteq> alnum \<union> {CHR ''+'', CHR ''/'', CHR ''=''}"
    using "1.IH" "1.prems" by simp
  ultimately show ?case by auto
next
  case (2 a b)
  have "a div 4 < 64" "(a mod 4) * 16 + b div 16 < 64" "(b mod 16) * 4 < 64"
    using "2.prems" by (auto simp: less_mult_imp_div_less)
  then have "b64char (a div 4) \<in> alnum \<union> {CHR ''+'', CHR ''/''}"
    "b64char ((a mod 4) * 16 + b div 16) \<in> alnum \<union> {CHR ''+'', CHR ''/''}"
    "b64char ((b mod 16) * 4) \<in> alnum \<union> {CHR ''+'', CHR ''/''}"
    by (simp_all only: b64char_in)
  then show ?case by auto
next
  case (3 a)
  have "a div 4 < 64" "(a mod 4) * 16 < 64"
    using "3.prems" by (auto simp: less_mult_imp_div_less)
  then have "b64char (a div 4) \<in> alnum \<union> {CHR ''+'', CHR ''/''}"
    "b64char ((a mod 4) * 16) \<in> alnum \<union> {CHR ''+'', CHR ''/''}"
    by (simp_all only: b64char_in)
  then show ?case by auto
next
  case 4
  then show ?case by simp
qed

lemma btoa_chars: "set (btoa s) \<subseteq> alnum \<union> {CHR ''+'', CHR ''/'', CHR ''=''}"
proof -
  have "\<forall>x \<in> set (map of_char s :: nat list). x < 256"
    by (auto simp: of_char_def)
  then show ?thesis
    unfolding btoa_def by (rule b64groups_chars)
qed

lemma stripUnsafe_take_btoa:
  "length (stripUnsafe (take n (btoa s))) \<le> n \<and> set (stripUnsafe (take n (btoa s))) \<subseteq> alnum"
proof
  have "length (stripUnsafe (take n (btoa s))) \<le> length (take n (btoa s))"
    unfolding stripUnsafe_def by (rule length_filter_le)
  then show "length (stripUnsafe (take n (btoa s))) \<le> n" by simp
next
  have "set (take n (btoa s)) \<subseteq> alnum \<union> {CHR ''+'', CHR ''/'', CHR ''=''}"
    using btoa_chars set_take_subset by (rule order_trans [rotated])
  then show "set (stripUnsafe (take n (btoa s))) \<subseteq> alnum"
    unfolding stripUnsafe_def by auto
qed

text \<open>
  Claim C9. For every 8x8 board and side to move, \<^verbatim>\<open>hashPosition\<close> returns a key of
  at most 8 characters, all of them from the alphabet \<open>[A-Za-z0-9]\<close>.
\<close>

theorem hashPosition_key:
  "is8x8 board \<Longrightarrow>
   \<exists>k. hashPosition board currentPlayer = Inr k \<and> length k \<le> 8 \<and> set k \<subseteq> alnum"
  using stripUnsafe_take_btoa [of 8]
  by (simp add: hashPosition_def is8x8_def)

theorem hashPosition_key_witness:
  "is8x8 kingsBoard \<and>
   (\<exists>k. hashPosition kingsBoard ''white'' = Inr k \<and> length k \<le> 8 \<and> set k \<subseteq> alnum)"
proof -
  have b: "is8x8 kingsBoard" by code_simp
  show ?thesis using b hashPosition_key [OF b, of "''white''"] by simp
qed

text \<open>
  The key of \<open>kingsBoard\<close> has 8 characters; on \<open>oddBoard\<close> the Base64 prefix is
  \<^verbatim>\<open>MXc/Ni84\<close> and the key keeps 7 of its characters.
\<close>

lemma hashPosition_kingsBoard: "hashPosition kingsBoard ''white'' = Inr ''NGJrMy84''"
  by code_simp

lemma hashPosition_oddBoard: "hashPosition oddBoard ''white'' = Inr ''MXcNi84''"
  by code_simp

section \<open>Properties of the fold\<close>

lemma map_of_foldPositions:
  "map_of (foldPositions es seen r ps) h =
     (case find (\<lambda>e. ent_hash e = h) es of
        None \<Rightarrow> map_of ps h
      | Some e \<Rightarrow> if h \<in> seen then map_of ps h else map_option (applyResult e r) (map_of ps h))"
proof (induction es arbitrary: seen ps)
  case Nil
  then show ?case by simp
next
  case (Cons e es)
  show ?case
    by (cases "find (\<lambda>e. ent_hash e = h) es")
       (auto simp: Cons.IH update_conv' split: option.splits)
qed

lemma map_of_updatePositionStats:
  "map_of (updatePositionStats h board pl t ps) k =
     (if k = h then
        Some ((case map_of ps h of None \<Rightarrow> newPosition h board pl t | Some p \<Rightarrow> p)
                \<lparr>pos_lastSeen := now t,
                 pos_popularity :=
                   pos_popularity
                     (case map_of ps h of None \<Rightarrow> newPosition h board pl t | Some p \<Rightarrow> p) + 1\<rparr>)
      else map_of ps k)"
  by (simp add: updatePositionStats_def Let_def update_conv')

lemma applyResult_totalGames: "pos_totalGames (applyResult e r p) = pos_totalGames p + 1"
  by (simp add: applyResult_def Let_def split: option.splits)

lemma applyResult_popularity: "pos_popularity (applyResult e r p) = pos_popularity p"
  by (simp add: applyResult_def Let_def split: option.splits)

lemma applyResult_outcomesSum:
  "validResult r \<Longrightarrow> outcomesSum (applyResult e r p) = outcomesSum p + 1"
  by (auto simp: applyResult_def Let_def outcomesSum_def bumpOutcome_def validResult_def
        split: option.splits)

lemma getPositionStats_endGame:
  "currentGame s = Some g \<Longrightarrow>
   getPositionStats (snd (endGame r t s)) h =
     (case find (\<lambda>e. ent_hash e = h) (game_positions g) of
        None \<Rightarrow> getPositionStats s h
      | Some e \<Rightarrow> map_option (applyResult e r) (getPositionStats s h))"
  by (simp add: endGame_def getPositionStats_def saveDatabase_def Let_def
        updateGamePositions_def map_of_foldPositions split: option.splits)

lemma endGame_idle: "currentGame s = None \<Longrightarrow> snd (endGame r t s) = s"
  by (simp add: endGame_def)

lemma currentGame_endGame: "currentGame (snd (endGame r t s)) = None"
  by (simp add: endGame_def saveDatabase_def Let_def split: option.splits)

lemma getPositionStats_recordPosition:
  "hashPosition board pl = Inr k \<Longrightarrow>
   getPositionStats (snd (recordPosition board pl mv t s)) h =
     (if h = k then
        Some ((case getPositionStats s k of None \<Rightarrow> newPosition k board pl t | Some p \<Rightarrow> p)
                \<lparr>pos_lastSeen := now t,
                 pos_popularity :=
                   pos_popularity
                     (case getPositionStats s k of
                        None \<Rightarrow> newPosition k board pl t
                      | Some p \<Rightarrow> p) + 1\<rparr>)
      else getPositionStats s h)"
  by (simp add: recordPosition_def getPositionStats_def Let_def map_of_updatePositionStats)

lemma gameHashes_recordPosition:
  "hashPosition board pl = Inr k \<Longrightarrow>
   gameHashes (snd (recordPosition board pl mv t s)) = insert k (gameHashes s)"
  by (auto simp: recordPosition_def gameHashes_def Let_def newGame_def split: option.splits)

lemma recordPosition_error:
  "hashPosition board pl = Inl e \<Longrightarrow>
   getPositionStats (snd (recordPosition board pl mv t s)) h = getPositionStats s h \<and>
   gameHashes (snd (recordPosition board pl mv t s)) = gameHashes s"
  by (auto simp: recordPosition_def gameHashes_def getPositionStats_def Let_def newGame_def
        split: option.splits)

lemma getPositionStats_reset: "getPositionStats (reset t s) h = None"
  by (simp add: reset_def saveDatabase_def getPositionStats_def emptyDatabase_def)

lemma getPositionStats_startGame:
  "getPositionStats (snd (startGame t s)) h = getPositionStats s h"
  by (simp add: startGame_def getPositionStats_def)

lemma gameHashes_startGame: "gameHashes (snd (startGame t s)) = {}"
  by (simp add: startGame_def gameHashes_def newGame_def)

lemma find_hash: "find (\<lambda>e. ent_hash e = h) es = Some e \<Longrightarrow> h \<in> ent_hash ` set es"
  by (auto simp: find_Some_iff)

lemma find_hash_None: "find (\<lambda>e. ent_hash e = h) es = None \<Longrightarrow> h \<notin> ent_hash ` set es"
  by (auto simp: find_None_iff)

subsection \<open>The outcome tallies add up to \<open>totalGames\<close>\<close>

lemma sumInv_step: "sumInv s \<Longrightarrow> completedFold opn \<Longrightarrow> sumInv (step s opn)"
proof (cases opn)
  case (StartGame t)
  assume "sumInv s" then show ?thesis
    using StartGame by (simp add: sumInv_def getPositionStats_startGame)
next
  case (RecordPosition board pl mv t)
  assume inv: "sumInv s"
  show ?thesis
  proof (cases "hashPosition board pl")
    case (Inl e)
    then show ?thesis using inv RecordPosition
      by (simp add: sumInv_def recordPosition_error)
  next
    case (Inr k)
    then show ?thesis using inv RecordPosition
      by (auto simp: sumInv_def getPositionStats_recordPosition outcomesSum_def newPosition_def
            split: if_splits option.splits)
  qed
next
  case (EndGame r t)
  assume inv: "sumInv s" and "completedFold opn"
  then have v: "validResult r" using EndGame by simp
  show ?thesis
  proof (cases "currentGame s")
    case None
    then show ?thesis using inv EndGame by (simp add: endGame_idle)
  next
    case (Some g)
    show ?thesis using inv EndGame v
      by (auto simp: sumInv_def getPositionStats_endGame [OF Some] applyResult_outcomesSum
            applyResult_totalGames split: option.splits)
  qed
next
  case (Reset t)
  then show ?thesis by (simp add: sumInv_def getPositionStats_reset)
qed

lemma sumInv_run: "sumInv s \<Longrightarrow> list_all completedFold ops \<Longrightarrow> sumInv (run s ops)"
  unfolding run_def
  by (induction ops arbitrary: s) (simp_all add: sumInv_step)

lemma sumInv_newLearner: "sumInv (newLearner t)"
  by (simp add: sumInv_def newLearner_def emptyDatabase_def getPositionStats_def)

text \<open>
  Claim C1. Starting from the empty database, after any sequence of operations in which
  every game is ended with one of the results \<^verbatim>\<open>white\<close>, \<^verbatim>\<open>black\<close>, \<^verbatim>\<open>draw\<close>, every
  position record has \<open>outcomes.white + outcomes.black + outcomes.draw = totalGames\<close>.
\<close>

theorem outcomes_sum_totalGames:
  "list_all completedFold ops \<Longrightarrow>
   getPositionStats (run (newLearner t0) ops) h = Some p \<Longrightarrow>
   out_white (pos_outcomes p) + out_black (pos_outcomes p) + out_draw (pos_outcomes p)
     = pos_totalGames p"
  using sumInv_run [OF sumInv_newLearner, of ops t0]
  by (simp add: sumInv_def outcomesSum_def)

lemma repeatedGame_stats:
  "getPositionStats (run (newLearner 0) repeatedGame) ''NGJrMy84'' =
     Some \<lparr>pos_hash = ''NGJrMy84'',
           pos_fen = ''4undefined3/8/8/8/8/8/undefined7/4undefined3 w'',
           pos_firstSeen = 1, pos_lastSeen = 2, pos_totalGames = 1,
           pos_outcomes = \<lparr>out_white = 1, out_black = 0, out_draw = 0\<rparr>,
           pos_moves = [],
           pos_patterns =
             [''white_king_safe'', ''black_king_safe'', ''white_center'', ''black_center''],
           pos_popularity = 2\<rparr>"
  by code_simp

theorem outcomes_sum_totalGames_witness:
  "list_all completedFold repeatedGame \<and>
   (\<exists>p. getPositionStats (run (newLearner 0) repeatedGame) ''NGJrMy84'' = Some p \<and>
        pos_totalGames p = 1 \<and>
        out_white (pos_outcomes p) + out_black (pos_outcomes p) + out_draw (pos_outcomes p)
          = pos_totalGames p)"
proof -
  have v: "list_all completedFold repeatedGame" by code_simp
  show ?thesis
    using v outcomes_sum_totalGames [OF v repeatedGame_stats] repeatedGame_stats by simp
qed

subsection \<open>Popularity bounds \<open>totalGames\<close>\<close>

lemma popInv_step: "popInv s \<Longrightarrow> popInv (step s opn)"
proof (cases opn)
  case (StartGame t)
  assume "popInv s" then show ?thesis
    using StartGame
    by (fastforce simp: popInv_def getPositionStats_startGame gameHashes_startGame
          split: if_splits)
next
  case (RecordPosition board pl mv t)
  assume inv: "popInv s"
  show ?thesis
  proof (cases "hashPosition board pl")
    case (Inl e)
    then show ?thesis using inv RecordPosition
      by (simp add: popInv_def recordPosition_error)
  next
    case (Inr k)
    show ?thesis using inv RecordPosition
      unfolding popInv_def
      by (fastforce simp: getPositionStats_recordPosition [OF Inr]
            gameHashes_recordPosition [OF Inr] newPosition_def
            split: if_splits option.splits)
  qed
next
  case (EndGame r t)
  assume inv: "popInv s"
  show ?thesis
  proof (cases "currentGame s")
    case None
    then show ?thesis using inv EndGame by (simp add: endGame_idle)
  next
    case (Some g)
    have gh: "gameHashes s = ent_hash ` set (game_positions g)"
      by (simp add: gameHashes_def Some)
    have gh': "gameHashes (snd (endGame r t s)) = {}"
      by (simp add: gameHashes_def currentGame_endGame)
    have "pos_totalGames p' \<le> pos_popularity p'"
      if look: "getPositionStats (snd (endGame r t s)) h = Some p'" for h p'
    proof (cases "find (\<lambda>e. ent_hash e = h) (game_positions g)")
      case None
      then have "getPositionStats s h = Some p'"
        using look by (simp add: getPositionStats_endGame [OF Some])
      then show ?thesis using inv by (fastforce simp: popInv_def)
    next
      case (Some e)
      then obtain p where p: "getPositionStats s h = Some p" and p': "p' = applyResult e r p"
        using look by (auto simp: getPositionStats_endGame [OF \<open>currentGame s = Some g\<close>])
      have "h \<in> gameHashes s"
        using find_hash [OF Some] by (simp add: gh)
      then have "pos_totalGames p + 1 \<le> pos_popularity p"
        using inv p by (fastforce simp: popInv_def)
      then show ?thesis
        by (simp add: p' applyResult_totalGames applyResult_popularity)
    qed
    then show ?thesis
      using EndGame by (simp add: popInv_def gh')
  qed
next
  case (Reset t)
  then show ?thesis by (simp add: popInv_def getPositionStats_reset)
qed

lemma popInv_run: "popInv s \<Longrightarrow> popInv (run s ops)"
  unfolding run_def
  by (induction ops arbitrary: s) (simp_all add: popInv_step)

lemma popInv_newLearner: "popInv (newLearner t)"
  by (simp add: popInv_def newLearner_def emptyDatabase_def getPositionStats_def)

lemma popularityOf_recordPosition:
  "hashPosition board pl = Inr h \<Longrightarrow>
   popularityOf (snd (recordPosition board pl mv t s)) h = popularityOf s h + 1"
  by (simp add: popularityOf_def getPositionStats_recordPosition newPosition_def
        split: option.splits)

lemma totalGamesOf_endGame_le:
  "totalGamesOf (snd (endGame r t s)) h \<le> totalGamesOf s h + 1"
proof (cases "currentGame s")
  case None
  then show ?thesis by (simp add: endGame_idle)
next
  case (Some g)
  show ?thesis
    by (auto simp: totalGamesOf_def getPositionStats_endGame [OF Some] applyResult_totalGames
          split: option.splits)
qed

text \<open>
  Claim C4. Starting from the empty database, after any sequence of
  \<^verbatim>\<open>startGame\<close>, \<^verbatim>\<open>recordPosition\<close>, \<^verbatim>\<open>endGame\<close> (with any result) and \<^verbatim>\<open>reset\<close>
  operations, every position record has \<open>popularity \<ge> totalGames\<close>. Every recording
  of a position increments its \<open>popularity\<close> by 1, repeats within one game included,
  and finishing a game increments its \<open>totalGames\<close> by at most 1 (from any state).
\<close>

theorem popularity_ge_totalGames:
  "(getPositionStats (run (newLearner t0) ops) h = Some p \<longrightarrow>
      pos_totalGames p \<le> pos_popularity p) \<and>
   (hashPosition board pl = Inr h \<longrightarrow>
      popularityOf (snd (recordPosition board pl mv t s)) h = popularityOf s h + 1) \<and>
   totalGamesOf (snd (endGame r t s)) h \<le> totalGamesOf s h + 1"
proof -
  have "pos_totalGames p \<le> pos_popularity p"
    if "getPositionStats (run (newLearner t0) ops) h = Some p"
    using popInv_run [OF popInv_newLearner, of t0 ops] that
    by (fastforce simp: popInv_def)
  then show ?thesis
    using popularityOf_recordPosition totalGamesOf_endGame_le by blast
qed

theorem popularity_ge_totalGames_witness:
  "(\<exists>p. getPositionStats (run (newLearner 0) repeatedGame) ''NGJrMy84'' = Some p \<and>
       pos_totalGames p = 1 \<and> pos_popularity p = 2 \<and> pos_totalGames p \<le> pos_popularity p) \<and>
   hashPosition kingsBoard ''white'' = Inr ''NGJrMy84'' \<and>
   popularityOf (newLearner 0) ''NGJrMy84'' = 0 \<and>
   popularityOf (snd (recordPosition kingsBoard ''white'' (Some ''e4'') (tickAt 1) (newLearner 0)))
     ''NGJrMy84'' = 1"
proof -
  have z: "popularityOf (newLearner 0) ''NGJrMy84'' = 0" by code_simp
  from popularity_ge_totalGames [of 0 repeatedGame "''NGJrMy84''" _ kingsBoard "''white''"
      "Some ''e4''" "tickAt 1" "newLearner 0"]
    repeatedGame_stats hashPosition_kingsBoard z
  show ?thesis by simp
qed

subsection \<open>A repeated position counts once per game\<close>

lemma totalGamesOf_recordPosition:
  "hashPosition board pl = Inr k \<Longrightarrow>
   totalGamesOf (snd (recordPosition board pl mv t s)) h = totalGamesOf s h"
  by (simp add: totalGamesOf_def getPositionStats_recordPosition newPosition_def
        split: option.splits)

lemma recordPosition_known:
  "hashPosition board pl = Inr k \<Longrightarrow>
   \<exists>p. getPositionStats (snd (recordPosition board pl mv t s)) k = Some p"
  by (simp add: getPositionStats_recordPosition)

lemma totalGamesOf_endGame_recorded:
  assumes "h \<in> gameHashes s" and "getPositionStats s h = Some p"
  shows "totalGamesOf (snd (endGame r t s)) h = totalGamesOf s h + 1"
proof -
  from assms(1) obtain g where g: "currentGame s = Some g"
    and h: "h \<in> ent_hash ` set (game_positions g)"
    by (auto simp: gameHashes_def split: option.splits)
  from h obtain e where e: "find (\<lambda>e. ent_hash e = h) (game_positions g) = Some e"
    by (cases "find (\<lambda>e. ent_hash e = h) (game_positions g)") (auto dest: find_hash_None)
  show ?thesis
    by (simp add: totalGamesOf_def getPositionStats_endGame [OF g] e assms(2)
          applyResult_totalGames)
qed

text \<open>
  Claim C3. Recording the same canonical hash twice in one game and then ending the game
  with the result \<^verbatim>\<open>white\<close> increments \<open>totalGames\<close> of that position by exactly 1
  (a position without a record counts as 0 games), from any state of the learner.
\<close>

theorem repeat_counts_once:
  assumes "hashPosition board1 player1 = Inr h" and "hashPosition board2 player2 = Inr h"
  shows "totalGamesOf
           (snd (endGame ''white'' t3
              (snd (recordPosition board2 player2 mv2 t2
                 (snd (recordPosition board1 player1 mv1 t1 s)))))) h
         = totalGamesOf s h + 1"
proof -
  define s1 where "s1 = snd (recordPosition board1 player1 mv1 t1 s)"
  define s2 where "s2 = snd (recordPosition board2 player2 mv2 t2 s1)"
  have "h \<in> gameHashes s2"
    by (simp add: s2_def gameHashes_recordPosition [OF assms(2)])
  moreover obtain p where "getPositionStats s2 h = Some p"
    using recordPosition_known [OF assms(2), of mv2 t2 s1] by (auto simp: s2_def)
  ultimately have "totalGamesOf (snd (endGame ''white'' t3 s2)) h = totalGamesOf s2 h + 1"
    by (rule totalGamesOf_endGame_recorded)
  also have "totalGamesOf s2 h = totalGamesOf s h"
    by (simp add: s2_def s1_def totalGamesOf_recordPosition [OF assms(2)]
          totalGamesOf_recordPosition [OF assms(1)])
  finally show ?thesis by (simp add: s2_def s1_def)
qed

theorem repeat_counts_once_witness:
  "hashPosition kingsBoard ''white'' = Inr ''NGJrMy84'' \<and>
   totalGamesOf (newLearner 0) ''NGJrMy84'' = 0 \<and>
   totalGamesOf
     (snd (endGame ''white'' (tickAt 3)
        (snd (recordPosition kingsBoard ''white'' (Some ''e5'') (tickAt 2)
           (snd (recordPosition kingsBoard ''white'' (Some ''e4'') (tickAt 1) (newLearner 0)))))))
     ''NGJrMy84'' = 1"
proof -
  have z: "totalGamesOf (newLearner 0) ''NGJrMy84'' = 0" by code_simp
  show ?thesis
    using repeat_counts_once [OF hashPosition_kingsBoard hashPosition_kingsBoard,
        of "tickAt 3" "Some ''e5''" "tickAt 2" "Some ''e4''" "tickAt 1" "newLearner 0"] z
      hashPosition_kingsBoard
    by simp
qed

subsection \<open>Move statistics in the fold\<close>

text \<open>
  Nothing creates an entry of \<^verbatim>\<open>position.moves\<close>: \<^verbatim>\<open>updatePositionStats\<close> creates the
  dictionary empty and the fold updates only entries that exist. From the empty database
  the dictionary of every position stays empty.
\<close>

lemma applyResult_moves_empty: "pos_moves p = [] \<Longrightarrow> pos_moves (applyResult e r p) = []"
  by (simp add: applyResult_def Let_def split: option.splits)

lemma noMoves_step: "noMoves s \<Longrightarrow> noMoves (step s opn)"
proof (cases opn)
  case (StartGame t)
  assume "noMoves s" then show ?thesis
    using StartGame by (simp add: noMoves_def getPositionStats_startGame)
next
  case (RecordPosition board pl mv t)
  assume inv: "noMoves s"
  show ?thesis
  proof (cases "hashPosition board pl")
    case (Inl e)
    then show ?thesis using inv RecordPosition
      by (simp add: noMoves_def recordPosition_error)
  next
    case (Inr k)
    then show ?thesis using inv RecordPosition
      by (auto simp: noMoves_def getPositionStats_recordPosition newPosition_def
            split: if_splits option.splits)
  qed
next
  case (EndGame r t)
  assume inv: "noMoves s" 
  show ?thesis
  proof (cases "currentGame s")
    case None
    then show ?thesis using inv EndGame by (simp add: endGame_idle)
  next
    case (Some g)
    show ?thesis using inv EndGame 
      by (auto simp: noMoves_def getPositionStats_endGame [OF Some] applyResult_moves_empty
            split: option.splits)
  qed
next
  case (Reset t)
  then show ?thesis by (simp add: noMoves_def getPositionStats_reset)
qed

lemma noMoves_run: "noMoves s \<Longrightarrow> noMoves (run s ops)"
  unfolding run_def
  by (induction ops arbitrary: s) (simp_all add: noMoves_step)

lemma moves_never_created:
  "getPositionStats (run (newLearner t0) ops) h = Some p \<Longrightarrow> pos_moves p = []"
proof -
  have "noMoves (newLearner t0)"
    by (simp add: noMoves_def newLearner_def emptyDatabase_def getPositionStats_def)
  then have "noMoves (run (newLearner t0) ops)" by (rule noMoves_run)
  then show "getPositionStats (run (newLearner t0) ops) h = Some p \<Longrightarrow> pos_moves p = []"
    by (simp add: noMoves_def)
qed

text \<open>Where the entry of the move exists, the fold counts the game in it.\<close>

lemma applyResult_known_move:
  assumes "ent_move e = Some m" and "m \<noteq> []" and "map_of (pos_moves p) m = Some st"
  shows "map_of (pos_moves (applyResult e r p)) m = Some (bumpMove r (ent_player e) st)"
  using assms by (simp add: applyResult_def Let_def update_conv')

lemma bumpMove_counts:
  "ms_played (bumpMove r pl st) = ms_played st + 1 \<and>
   ms_wins (bumpMove r pl st) = ms_wins st + (if r = pl then 1 else 0) \<and>
   ms_draws (bumpMove r pl st) = ms_draws st + (if r \<noteq> pl \<and> r = ''draw'' then 1 else 0) \<and>
   ms_losses (bumpMove r pl st) = ms_losses st + (if r \<noteq> pl \<and> r \<noteq> ''draw'' then 1 else 0)"
  by (simp add: bumpMove_def Let_def)

text \<open>
  Claim C2 at a game of one recorded move \<^verbatim>\<open>e4\<close>, played and won by white, folded into
  the empty database: the position counts the game, and its move statistics stay empty
  (no \<open>played\<close> or \<open>wins\<close> for \<^verbatim>\<open>e4\<close>).
\<close>

theorem first_time_move_dropped:
  "map_option pos_totalGames (getPositionStats (run (newLearner 0) singleMoveGame) ''NGJrMy84'')
     = Some 1 \<and>
   map_option pos_moves (getPositionStats (run (newLearner 0) singleMoveGame) ''NGJrMy84'')
     = Some []"
  by code_simp

section \<open>Properties of the analysis functions\<close>

subsection \<open>Numbers, enumeration order and sorting\<close>

lemma floor_rat_numeral: "\<lfloor>(numeral a :: rat) / numeral b\<rfloor> = numeral a div numeral b"
  using floor_divide_of_int_eq [of "numeral a" "numeral b", where ?'a = rat] by simp

text \<open>The equations that evaluate an operation on given numbers.\<close>

lemmas dbl = roundD_def packD_def scaleD_def roundHalfEven_def nearestOf_def log2floor_def
  negExponent_def pow2_def bitLength.simps ofCount_def dsub_def dgt_def dle_def descKey_def
  floor_rat_numeral

lemma roundD_not_NaN: "roundD x \<noteq> NaN"
  by (simp add: roundD_def packD_def)

lemma descKey_inj: "descKey a = descKey b \<longleftrightarrow> a = b"
  by (cases a; cases b) (simp_all add: descKey_def)

lemma dgt_not_NaN: "dgt a b \<Longrightarrow> a \<noteq> NaN"
  by (simp add: dgt_def)

lemma dle_Finite: "dle (Finite x) (Finite y) \<longleftrightarrow> x \<le> y"
  by (simp add: dle_def descKey_def)

lemma dgt_Finite: "dgt (Finite x) (Finite y) \<longleftrightarrow> y < x"
  by (simp add: dgt_def descKey_def)

lemma set_ownEntries: "set (ownEntries al) = set al"
  by (auto simp: ownEntries_def)

lemma mset_ownEntries: "mset (ownEntries al) = mset al"
  by (simp add: ownEntries_def)

lemma slice0_take: "0 \<le> n \<Longrightarrow> slice0 xs n = take (nat n) xs"
  by (simp add: slice0_def)

lemma jsSortDesc_defined:
  "list_all (\<lambda>x. key x \<noteq> NaN) xs
   \<Longrightarrow> jsSortDesc key xs = Some (sort_key (\<lambda>x. descKey (key x)) xs)"
  by (simp add: jsSortDesc_def)

lemma sorted_jsSortDesc:
  assumes "list_all (\<lambda>x. key x \<noteq> NaN) xs"
  shows "sorted_wrt (\<lambda>a b. dle (key b) (key a)) (sort_key (\<lambda>x. descKey (key x)) xs)"
proof -
  have "sorted (map (\<lambda>x. descKey (key x)) (sort_key (\<lambda>x. descKey (key x)) xs))"
    by (rule sorted_sort_key)
  then have s: "sorted_wrt (\<lambda>a b. descKey (key a) \<le> descKey (key b))
                  (sort_key (\<lambda>x. descKey (key x)) xs)"
    by (simp add: sorted_map)
  have n: "\<forall>x \<in> set (sort_key (\<lambda>x. descKey (key x)) xs). key x \<noteq> NaN"
    using assms by (simp add: list_all_iff)
  show ?thesis
    by (rule sorted_wrt_mono_rel [OF _ s]) (simp add: dle_def n)
qed

lemma stable_jsSortDesc:
  "filter (\<lambda>x. key x = c) (sort_key (\<lambda>x. descKey (key x)) xs) = filter (\<lambda>x. key x = c) xs"
  using sort_key_stable [of "\<lambda>x. descKey (key x)" "descKey c" xs] by (simp add: descKey_inj)

lemma rankedBy_jsSortDesc:
  assumes "list_all (\<lambda>x. key x \<noteq> NaN) xs"
  shows "\<exists>out. jsSortDesc key xs = Some out \<and> rankedBy key xs out"
  using sorted_jsSortDesc [OF assms] jsSortDesc_defined [OF assms]
  by (simp add: rankedBy_def stable_jsSortDesc)

subsection \<open>Inconsistencies\<close>

lemma key_report:
  "dabs (inc_deviation (reportOf kv)) = dabs (dsub (actualOf (snd kv)) (Finite (1 / 2)))"
  by (simp add: reportOf_def)

lemma inconsistent_report:
  "inconsistent thr kv
     \<longleftrightarrow> 5 \<le> inc_games (reportOf kv) \<and> dgt (dabs (inc_deviation (reportOf kv))) thr"
  by (auto simp: inconsistent_def reportOf_def)

lemma reportOf_inconsistent:
  "reportOf kv = reportOf kv' \<Longrightarrow> inconsistent thr kv = inconsistent thr kv'"
  by (simp add: inconsistent_report)

lemma findInconsistencies_returns:
  assumes "set (objectProto s) \<subseteq> fst ` set (db_positions (db s))"
  shows "findInconsistencies thr s =
           Returns (sort_key (\<lambda>i. descKey (dabs (inc_deviation i)))
             (map reportOf (filter (inconsistent thr) (ownEntries (db_positions (db s))))))"
proof -
  have p: "list_all (\<lambda>name. name \<in> fst ` set (db_positions (db s))) (objectProto s)"
    using assms by (auto simp: list_all_iff)
  have "list_all (\<lambda>i. dabs (inc_deviation i) \<noteq> NaN)
          (map reportOf (filter (inconsistent thr) (ownEntries (db_positions (db s)))))"
    by (auto simp: list_all_iff inconsistent_report dest: dgt_not_NaN)
  then show ?thesis
    by (simp add: findInconsistencies_def p jsSortDesc_defined sortResult_def)
qed

lemma findInconsistencies_sorted:
  "sorted_wrt (\<lambda>a b. dle (dabs (inc_deviation b)) (dabs (inc_deviation a)))
     (sort_key (\<lambda>i. descKey (dabs (inc_deviation i)))
        (map reportOf (filter (inconsistent thr) (ownEntries (db_positions (db s))))))"
proof (rule sorted_jsSortDesc)
  show "list_all (\<lambda>i. dabs (inc_deviation i) \<noteq> NaN)
          (map reportOf (filter (inconsistent thr) (ownEntries (db_positions (db s)))))"
    by (auto simp: list_all_iff inconsistent_report dest: dgt_not_NaN)
qed

text \<open>
  Claim C6, as amended. While every enumerable property of \<^verbatim>\<open>Object.prototype\<close> is
  shadowed by a key of the positions (none exists unless the learner has added one),
  \<^verbatim>\<open>findInconsistencies(threshold)\<close> returns a list that has no position with
  \<open>totalGames < 5\<close>; a position with \<open>totalGames \<ge> 5\<close> is reported if and only if the
  absolute value of the double \<open>outcomes.white / totalGames - 0.5\<close>, each operation
  rounded to the nearest double, is above the threshold; every reported entry is the
  report of a position of the store with at least 5 games; and the list is sorted by
  descending absolute value of that deviation.
\<close>

theorem findInconsistencies_gate:
  assumes "set (objectProto s) \<subseteq> fst ` set (db_positions (db s))"
  shows "\<exists>r. findInconsistencies thr s = Returns r \<and>
     (\<forall>kv \<in> set (db_positions (db s)). pos_totalGames (snd kv) < 5 \<longrightarrow> reportOf kv \<notin> set r) \<and>
     (\<forall>kv \<in> set (db_positions (db s)).
        5 \<le> pos_totalGames (snd kv) \<longrightarrow>
          (reportOf kv \<in> set r
           \<longleftrightarrow> dgt (dabs (dsub (ddiv (ofCount (out_white (pos_outcomes (snd kv))))
                                     (ofCount (pos_totalGames (snd kv))))
                               (Finite (1 / 2))))
                    thr)) \<and>
     (\<forall>e \<in> set r. 5 \<le> inc_games e \<and> e \<in> reportOf ` set (db_positions (db s))) \<and>
     sorted_wrt (\<lambda>a b. dle (dabs (inc_deviation b)) (dabs (inc_deviation a))) r"
proof -
  define r where "r = sort_key (\<lambda>i. descKey (dabs (inc_deviation i)))
             (map reportOf (filter (inconsistent thr) (ownEntries (db_positions (db s)))))"
  have ret: "findInconsistencies thr s = Returns r"
    unfolding r_def by (rule findInconsistencies_returns [OF assms])
  have setr: "set r = reportOf ` {kv \<in> set (db_positions (db s)). inconsistent thr kv}"
    by (simp add: r_def set_ownEntries)
  have iff: "reportOf kv \<in> set r \<longleftrightarrow> inconsistent thr kv"
    if mem: "kv \<in> set (db_positions (db s))" for kv
  proof
    assume "reportOf kv \<in> set r"
    then obtain kv' where "inconsistent thr kv'" and "reportOf kv = reportOf kv'"
      by (auto simp: setr)
    then show "inconsistent thr kv" using reportOf_inconsistent by blast
  next
    assume "inconsistent thr kv"
    then show "reportOf kv \<in> set r"
      using mem by (simp add: setr)
  qed
  have small: "\<forall>kv \<in> set (db_positions (db s)).
      pos_totalGames (snd kv) < 5 \<longrightarrow> reportOf kv \<notin> set r"
    using iff by (simp add: inconsistent_def)
  have big: "\<forall>kv \<in> set (db_positions (db s)).
      5 \<le> pos_totalGames (snd kv) \<longrightarrow>
        (reportOf kv \<in> set r
         \<longleftrightarrow> dgt (dabs (dsub (ddiv (ofCount (out_white (pos_outcomes (snd kv))))
                                   (ofCount (pos_totalGames (snd kv))))
                             (Finite (1 / 2))))
                  thr)"
    using iff by (simp add: inconsistent_def actualOf_def)
  have only: "\<forall>e \<in> set r. 5 \<le> inc_games e \<and> e \<in> reportOf ` set (db_positions (db s))"
    by (auto simp: setr inconsistent_report)
  have "sorted_wrt (\<lambda>a b. dle (dabs (inc_deviation b)) (dabs (inc_deviation a))) r"
    unfolding r_def by (rule findInconsistencies_sorted)
  with ret small big only show ?thesis by blast
qed

lemma sample_entries:
  "ownEntries (db_positions (db sampleStore)) =
     [(''7'', samplePosition ''7'' 5 0),
      (''hashA'', samplePosition ''hashA'' 4 4),
      (''hashB'', samplePosition ''hashB'' 10 9),
      (''hashC'', samplePosition ''hashC'' 10 5),
      (''hashD'', samplePosition ''hashD'' 10 1)]"
  by code_simp

lemma games_sample: "pos_totalGames (samplePosition h n w) = n"
  by (simp add: samplePosition_def)

lemma white_sample: "out_white (pos_outcomes (samplePosition h n w)) = w"
  by (simp add: samplePosition_def)

lemma sample_deviations:
  "dsub (actualOf (samplePosition h 5 0)) (Finite (1 / 2)) = Finite (- 1 / 2)"
  "dsub (actualOf (samplePosition h 10 9)) (Finite (1 / 2))
     = Finite (3602879701896397 / 9007199254740992)"
  "dsub (actualOf (samplePosition h 10 5)) (Finite (1 / 2)) = Finite 0"
  "dsub (actualOf (samplePosition h 10 (Suc 0))) (Finite (1 / 2))
     = Finite (- 3602879701896397 / 9007199254740992)"
  by (simp_all add: actualOf_def games_sample white_sample dbl)

lemma fifth: "roundD (1 / 5) = Finite (3602879701896397 / 18014398509481984)"
  by (simp add: dbl)

lemma sample_filter:
  "filter (inconsistent (roundD (1 / 5))) (ownEntries (db_positions (db sampleStore)))
     = [(''7'', samplePosition ''7'' 5 0),
        (''hashB'', samplePosition ''hashB'' 10 9),
        (''hashD'', samplePosition ''hashD'' 10 1)]"
  unfolding sample_entries
  by (simp add: inconsistent_def games_sample sample_deviations fifth dgt_Finite)

lemma sample_proto: "objectProto sampleStore = []"
  by (simp add: sampleStore_def)

lemma sample_inconsistencies:
  "findInconsistencies (roundD (1 / 5)) sampleStore
     = Returns (map reportOf [(''7'', samplePosition ''7'' 5 0),
                              (''hashB'', samplePosition ''hashB'' 10 9),
                              (''hashD'', samplePosition ''hashD'' 10 1)])"
  unfolding findInconsistencies_def sample_filter sample_proto
  by (simp add: jsSortDesc_def sortResult_def key_report sample_deviations descKey_def)

lemma sample_members:
  "(''hashA'', samplePosition ''hashA'' 4 4) \<in> set (db_positions (db sampleStore))"
  "(''hashB'', samplePosition ''hashB'' 10 9) \<in> set (db_positions (db sampleStore))"
  by (simp_all add: sampleStore_def)

theorem findInconsistencies_gate_witness:
  "set (objectProto sampleStore) \<subseteq> fst ` set (db_positions (db sampleStore)) \<and>
   findInconsistencies (roundD (1 / 5)) sampleStore
     = Returns (map reportOf [(''7'', samplePosition ''7'' 5 0),
                              (''hashB'', samplePosition ''hashB'' 10 9),
                              (''hashD'', samplePosition ''hashD'' 10 1)]) \<and>
   (''hashA'', samplePosition ''hashA'' 4 4) \<in> set (db_positions (db sampleStore)) \<and>
   pos_totalGames (samplePosition ''hashA'' 4 4) < 5 \<and>
   reportOf (''hashA'', samplePosition ''hashA'' 4 4)
     \<notin> set (map reportOf [(''7'', samplePosition ''7'' 5 0),
                            (''hashB'', samplePosition ''hashB'' 10 9),
                            (''hashD'', samplePosition ''hashD'' 10 1)]) \<and>
   (''hashB'', samplePosition ''hashB'' 10 9) \<in> set (db_positions (db sampleStore)) \<and>
   5 \<le> pos_totalGames (samplePosition ''hashB'' 10 9) \<and>
   dgt (dabs (dsub (ddiv (ofCount (out_white (pos_outcomes (samplePosition ''hashB'' 10 9))))
                         (ofCount (pos_totalGames (samplePosition ''hashB'' 10 9))))
                   (Finite (1 / 2))))
       (roundD (1 / 5)) \<and>
   sorted_wrt (\<lambda>a b. dle (dabs (inc_deviation b)) (dabs (inc_deviation a)))
     (map reportOf [(''7'', samplePosition ''7'' 5 0),
                    (''hashB'', samplePosition ''hashB'' 10 9),
                    (''hashD'', samplePosition ''hashD'' 10 1)])"
proof -
  have h: "set (objectProto sampleStore) \<subseteq> fst ` set (db_positions (db sampleStore))"
    by (simp add: sample_proto)
  have a: "pos_totalGames (samplePosition ''hashA'' 4 4) < 5"
    and b: "5 \<le> pos_totalGames (samplePosition ''hashB'' 10 9)"
    by (simp_all add: games_sample)
  have c: "dgt (dabs (dsub (ddiv (ofCount (out_white (pos_outcomes (samplePosition ''hashB'' 10 9))))
                         (ofCount (pos_totalGames (samplePosition ''hashB'' 10 9))))
                   (Finite (1 / 2))))
       (roundD (1 / 5))"
    using sample_deviations(2) [of "''hashB''"] by (simp add: actualOf_def fifth dgt_Finite)
  obtain r where r: "findInconsistencies (roundD (1 / 5)) sampleStore = Returns r"
    and small: "\<forall>kv \<in> set (db_positions (db sampleStore)).
                  pos_totalGames (snd kv) < 5 \<longrightarrow> reportOf kv \<notin> set r"
    and sorted: "sorted_wrt (\<lambda>a b. dle (dabs (inc_deviation b)) (dabs (inc_deviation a))) r"
    using findInconsistencies_gate [OF h, of "roundD (1 / 5)"] by blast
  have eq: "r = map reportOf [(''7'', samplePosition ''7'' 5 0),
                              (''hashB'', samplePosition ''hashB'' 10 9),
                              (''hashD'', samplePosition ''hashD'' 10 1)]"
    using r sample_inconsistencies by simp
  have n: "reportOf (''hashA'', samplePosition ''hashA'' 4 4) \<notin> set r"
    using bspec [OF small sample_members(1)] a by simp
  show ?thesis
    using h sample_inconsistencies sample_members a b c n sorted unfolding eq by blast
qed

text \<open>
  Claim C6 as stated, with the deviation an exact number, fails. At the threshold
  \<^verbatim>\<open>0.3\<close> (the double nearest to \<open>3/10\<close>, which is below \<open>3/10\<close>), two positions of ten
  games with eight and with two wins of white both deviate by \<open>3/10\<close>, above the
  threshold, and the source reports the first only: \<^verbatim>\<open>0.8 - 0.5\<close> is the double above
  \<^verbatim>\<open>0.3\<close>, and \<^verbatim>\<open>0.2 - 0.5\<close> is \<^verbatim>\<open>-0.3\<close>, the threshold itself.
\<close>

theorem findInconsistencies_rounding:
  "findInconsistencies (roundD (3 / 10)) skewStore
     = Returns [reportOf (''hashE'', samplePosition ''hashE'' 10 8)] \<and>
   roundD (3 / 10) = Finite (5404319552844595 / 18014398509481984) \<and>
   map_of (db_positions (db skewStore)) ''hashF'' = Some (samplePosition ''hashF'' 10 2) \<and>
   specInconsistent (5404319552844595 / 18014398509481984) (samplePosition ''hashF'' 10 2) \<and>
   inc_deviation (reportOf (''hashF'', samplePosition ''hashF'' 10 2))
     = Finite (- (5404319552844595 / 18014398509481984)) \<and>
   inc_deviation (reportOf (''hashE'', samplePosition ''hashE'' 10 8))
     = Finite (1351079888211149 / 4503599627370496)"
proof -
  have e: "ownEntries (db_positions (db skewStore))
           = [(''hashE'', samplePosition ''hashE'' 10 8), (''hashF'', samplePosition ''hashF'' 10 2)]"
    by code_simp
  have t: "roundD (3 / 10) = Finite (5404319552844595 / 18014398509481984)"
    by (simp add: dbl)
  have d8: "dsub (actualOf (samplePosition h 10 8)) (Finite (1 / 2))
              = Finite (1351079888211149 / 4503599627370496)" for h
    by (simp add: actualOf_def games_sample white_sample dbl)
  have d2: "dsub (actualOf (samplePosition h 10 2)) (Finite (1 / 2))
              = Finite (- (5404319552844595 / 18014398509481984))" for h
    by (simp add: actualOf_def games_sample white_sample dbl)
  have f: "filter (inconsistent (roundD (3 / 10))) (ownEntries (db_positions (db skewStore)))
           = [(''hashE'', samplePosition ''hashE'' 10 8)]"
    unfolding e by (simp add: inconsistent_def games_sample d8 d2 t dgt_Finite)
  have p: "objectProto skewStore = []" by (simp add: skewStore_def)
  have 1: "findInconsistencies (roundD (3 / 10)) skewStore
     = Returns [reportOf (''hashE'', samplePosition ''hashE'' 10 8)]"
    unfolding findInconsistencies_def f p
    by (simp add: jsSortDesc_def sortResult_def key_report d8)
  have 2: "map_of (db_positions (db skewStore)) ''hashF'' = Some (samplePosition ''hashF'' 10 2)"
    by (simp add: skewStore_def)
  have 3: "specInconsistent (5404319552844595 / 18014398509481984) (samplePosition ''hashF'' 10 2)"
    by (simp add: specInconsistent_def games_sample white_sample)
  have 4: "inc_deviation (reportOf (''hashF'', samplePosition ''hashF'' 10 2))
     = Finite (- (5404319552844595 / 18014398509481984))"
    by (simp add: reportOf_def d2)
  have 5: "inc_deviation (reportOf (''hashE'', samplePosition ''hashE'' 10 8))
     = Finite (1351079888211149 / 4503599627370496)"
    by (simp add: reportOf_def d8)
  from 1 t 2 3 4 5 show ?thesis by simp
qed

text \<open>
  Rounding also decides the order of deviations that are equal as exact numbers:
  \<^verbatim>\<open>0.7 - 0.5\<close> is \<^verbatim>\<open>0.19999999999999996\<close> and \<^verbatim>\<open>0.3 - 0.5\<close> is \<^verbatim>\<open>-0.2\<close>, and the position
  recorded second is reported first.
\<close>

lemma findInconsistencies_order_by_rounding:
  "findInconsistencies (roundD (1 / 10)) nearStore
     = Returns [reportOf (''hashH'', samplePosition ''hashH'' 10 3),
                reportOf (''hashG'', samplePosition ''hashG'' 10 7)]"
proof -
  have e: "ownEntries (db_positions (db nearStore))
           = [(''hashG'', samplePosition ''hashG'' 10 7), (''hashH'', samplePosition ''hashH'' 10 3)]"
    by code_simp
  have t: "roundD (1 / 10) = Finite (3602879701896397 / 36028797018963968)"
    by (simp add: dbl)
  have d7: "dsub (actualOf (samplePosition h 10 7)) (Finite (1 / 2))
              = Finite (900719925474099 / 4503599627370496)" for h
    by (simp add: actualOf_def games_sample white_sample dbl)
  have d3: "dsub (actualOf (samplePosition h 10 3)) (Finite (1 / 2))
              = Finite (- (3602879701896397 / 18014398509481984))" for h
    by (simp add: actualOf_def games_sample white_sample dbl)
  have f: "filter (inconsistent (roundD (1 / 10))) (ownEntries (db_positions (db nearStore)))
           = [(''hashG'', samplePosition ''hashG'' 10 7), (''hashH'', samplePosition ''hashH'' 10 3)]"
    unfolding e by (simp add: inconsistent_def games_sample d7 d3 t dgt_Finite)
  have p: "objectProto nearStore = []" by (simp add: nearStore_def)
  show ?thesis
    unfolding findInconsistencies_def f p
    by (simp add: jsSortDesc_def sortResult_def key_report d7 d3 descKey_def)
qed

text \<open>
  After the fold of a game with a move named \<^verbatim>\<open>__proto__\<close>, \<^verbatim>\<open>Object.prototype\<close> has
  the enumerable properties \<^verbatim>\<open>played\<close> and \<^verbatim>\<open>wins\<close>, the loop of \<^verbatim>\<open>findInconsistencies\<close>
  visits them, and the call raises a \<^verbatim>\<open>TypeError\<close>.
\<close>

lemma protoGame_pollutes:
  "objectProto (run (newLearner 0) protoGame) = [''played'', ''wins'']"
  by code_simp

lemma protoGame_keys:
  "map fst (db_positions (db (run (newLearner 0) protoGame))) = [''NGJrMy84'']"
  by code_simp

lemma findInconsistencies_polluted:
  "findInconsistencies thr (run (newLearner 0) protoGame) = Throws TypeError"
  by (simp add: findInconsistencies_def protoGame_pollutes protoGame_keys)

subsection \<open>Opening tree\<close>

lemma builtin_proto: "''__proto__'' \<in> set builtinNames"
  by (simp add: builtinNames_def)

lemma addGame_plain:
  assumes "0 \<le> d"
    and "nat d \<le> length (game_moves g)
         \<longrightarrow> join arrow (take (nat d) (game_moves g)) \<notin> set builtinNames"
  shows "addGame d acc g =
     (if length (game_moves g) < nat d then acc
      else (AList.update (join arrow (take (nat d) (game_moves g)))
              (countGame g (case map_of (fst acc) (join arrow (take (nat d) (game_moves g))) of
                              None \<Rightarrow> freshOpening d g | Some o0 \<Rightarrow> o0)) (fst acc),
            snd acc))"
proof (cases "length (game_moves g) < nat d")
  case True
  then show ?thesis using assms(1) by (auto simp: addGame_def)
next
  case False
  then have k: "join arrow (take (nat d) (game_moves g)) \<notin> set builtinNames"
    using assms(2) by simp
  then have p: "join arrow (take (nat d) (game_moves g)) \<noteq> ''__proto__''"
    using builtin_proto by metis
  show ?thesis
    using False assms(1) k p
    by (cases acc) (auto simp: addGame_def openingKey_def slice0_take split: option.splits)
qed

lemma foldl_countGame:
  "foldl (\<lambda>o1 g. countGame g o1) o0 gs =
     \<lparr>op_moves = op_moves o0, op_games = op_games o0 + length gs,
      op_wins = op_wins o0 + length (filter (\<lambda>g. game_result g = Some ''white'') gs),
      op_losses = op_losses o0 + length (filter (\<lambda>g. game_result g = Some ''black'') gs),
      op_draws = op_draws o0 + length (filter (\<lambda>g. game_result g \<noteq> Some ''white'' \<and> game_result g \<noteq> Some ''black'') gs)\<rparr>"
  by (induction gs arbitrary: o0) (auto simp: countGame_def Let_def)

text \<open>The games all of whose keys at a depth are no built-in names.\<close>

lemma map_of_addGames:
  assumes "0 \<le> d"
    and "\<forall>g \<in> set gs. nat d \<le> length (game_moves g)
           \<longrightarrow> join arrow (take (nat d) (game_moves g)) \<notin> set builtinNames"
  shows "map_of (fst (foldl (addGame d) acc gs)) k =
     (case lineGames (nat d) k gs of
        [] \<Rightarrow> map_of (fst acc) k
      | g0 # _ \<Rightarrow>
          Some (foldl (\<lambda>o1 g. countGame g o1)
                  (case map_of (fst acc) k of None \<Rightarrow> freshOpening d g0 | Some o0 \<Rightarrow> o0)
                  (lineGames (nat d) k gs)))"
  using assms(2)
proof (induction gs arbitrary: acc)
  case Nil
  then show ?case by (simp add: lineGames_def)
next
  case (Cons g gs)
  have pg: "nat d \<le> length (game_moves g)
            \<longrightarrow> join arrow (take (nat d) (game_moves g)) \<notin> set builtinNames"
    using Cons.prems by simp
  have rest: "\<forall>g \<in> set gs. nat d \<le> length (game_moves g)
           \<longrightarrow> join arrow (take (nat d) (game_moves g)) \<notin> set builtinNames"
    using Cons.prems by simp
  note ag = addGame_plain [OF assms(1) pg]
  note IH = Cons.IH [OF rest]
  show ?case
  proof (cases "nat d \<le> length (game_moves g) \<and> join arrow (take (nat d) (game_moves g)) = k")
    case True
    then have l: "lineGames (nat d) k (g # gs) = g # lineGames (nat d) k gs"
      by (simp add: lineGames_def)
    have a: "map_of (fst (addGame d acc g)) k =
        Some (countGame g (case map_of (fst acc) k of None \<Rightarrow> freshOpening d g | Some o0 \<Rightarrow> o0))"
      using True by (auto simp: ag update_conv')
    show ?thesis
      by (simp add: IH l a split: list.splits)
  next
    case False
    then have l: "lineGames (nat d) k (g # gs) = lineGames (nat d) k gs"
      by (auto simp: lineGames_def)
    have a: "map_of (fst (addGame d acc g)) k = map_of (fst acc) k"
      using False by (auto simp: ag update_conv')
    show ?thesis
      by (simp add: IH l a split: list.splits)
  qed
qed

lemma distinct_addGame:
  "distinct (map fst (fst acc)) \<Longrightarrow> distinct (map fst (fst (addGame d acc g)))"
  by (simp add: addGame_def distinct_update split: option.splits)

lemma distinct_addGames:
  "distinct (map fst (fst acc)) \<Longrightarrow> distinct (map fst (fst (foldl (addGame d) acc gs)))"
  by (induction gs arbitrary: acc) (simp_all add: distinct_addGame)

lemma openingsOf_entry:
  assumes "0 \<le> d"
    and "\<forall>g \<in> set (db_games (db s)). nat d \<le> length (game_moves g)
           \<longrightarrow> join arrow (take (nat d) (game_moves g)) \<notin> set builtinNames"
    and "(k, e) \<in> set (fst (openingsOf d s))"
  shows "lineGames (nat d) k (db_games (db s)) \<noteq> [] \<and>
         e = tallyOf (take (nat d) (game_moves (hd (lineGames (nat d) k (db_games (db s))))))
               (lineGames (nat d) k (db_games (db s))) \<and>
         join arrow (op_moves e) = k"
proof -
  have "distinct (map fst (fst (openingsOf d s)))"
    unfolding openingsOf_def by (rule distinct_addGames) simp
  then have m: "map_of (fst (openingsOf d s)) k = Some e"
    using assms(3) by simp
  show ?thesis
  proof (cases "lineGames (nat d) k (db_games (db s))")
    case Nil
    then show ?thesis using m by (simp add: openingsOf_def map_of_addGames [OF assms(1,2)])
  next
    case (Cons g0 rest)
    have "g0 \<in> set (lineGames (nat d) k (db_games (db s)))" by (simp add: Cons)
    then have k: "join arrow (take (nat d) (game_moves g0)) = k"
      by (simp add: lineGames_def)
    have "e = foldl (\<lambda>o1 g. countGame g o1) (freshOpening d g0) (g0 # rest)"
      using m by (simp add: openingsOf_def map_of_addGames [OF assms(1,2)] Cons)
    then have "e = tallyOf (take (nat d) (game_moves g0)) (g0 # rest)"
      by (simp only: foldl_countGame) (simp add: tallyOf_def freshOpening_def slice0_take assms(1))
    then show ?thesis using k by (simp add: Cons tallyOf_def)
  qed
qed

lemma openingsOf_complete:
  assumes "0 \<le> d"
    and "\<forall>g \<in> set (db_games (db s)). nat d \<le> length (game_moves g)
           \<longrightarrow> join arrow (take (nat d) (game_moves g)) \<notin> set builtinNames"
    and "g \<in> set (db_games (db s))" and "nat d \<le> length (game_moves g)"
  shows "\<exists>e. (join arrow (take (nat d) (game_moves g)), e) \<in> set (fst (openingsOf d s))"
proof -
  let ?k = "join arrow (take (nat d) (game_moves g))"
  have "g \<in> set (lineGames (nat d) ?k (db_games (db s)))"
    using assms(3,4) by (simp add: lineGames_def)
  then obtain g0 rest where "lineGames (nat d) ?k (db_games (db s)) = g0 # rest"
    by (cases "lineGames (nat d) ?k (db_games (db s))") auto
  then have "map_of (fst (openingsOf d s)) ?k \<noteq> None"
    by (simp add: openingsOf_def map_of_addGames [OF assms(1,2)])
  then show ?thesis by (auto dest: map_of_SomeD)
qed

lemma op_games_tallyOf: "op_games (tallyOf p gs) = length gs"
  by (simp add: tallyOf_def)

lemma getOpeningTree_returns:
  "fst (getOpeningTree d s) =
     Returns (take 20 (sort_key (\<lambda>o1. descKey (ofCount (op_games o1)))
                         (map snd (ownEntries (fst (openingsOf d s))))))"
  by (simp add: getOpeningTree_def jsSortDesc_def ofCount_def sortResult_def slice0_def
      list_all_iff)

lemma sorted_allLines:
  "sorted_wrt (\<lambda>a b. op_games b \<le> op_games a)
     (sort_key (\<lambda>o1. descKey (ofCount (op_games o1))) xs)"
proof -
  have "list_all (\<lambda>o1. ofCount (op_games o1) \<noteq> NaN) xs"
    by (simp add: ofCount_def list_all_iff)
  from sorted_jsSortDesc [OF this] show ?thesis
    by (simp add: ofCount_def dle_Finite)
qed

lemma lineGames_gamesWithPrefix:
  assumes "\<And>g. g \<in> set games \<Longrightarrow> n \<le> length (game_moves g) \<Longrightarrow>
             join arrow (take n (game_moves g)) = join arrow p \<Longrightarrow> take n (game_moves g) = p"
  shows "lineGames n (join arrow p) games = gamesWithPrefix n p games"
  unfolding lineGames_def gamesWithPrefix_def
  using assms by (intro filter_cong refl) auto

text \<open>
  What \<^verbatim>\<open>getOpeningTree(depth)\<close> computes for a depth \<open>\<ge> 0\<close> when no key is the name of
  a built-in of \<^verbatim>\<open>Object.prototype\<close>: at most 20 entries, sorted by descending game
  count, one entry per key, where the key of a game is the text of its first \<open>depth\<close>
  moves joined with the separator. Each entry counts the games with at least \<open>depth\<close>
  moves that have its key; its moves are the first \<open>depth\<close> moves of the first such
  game. The key of every game with at least \<open>depth\<close> moves has an entry, unless 20
  entries are returned that all count at least as many games. The entries are per
  key, not per sequence of moves.
\<close>

lemma getOpeningTree_by_key:
  assumes "0 \<le> depth"
    and "\<forall>g \<in> set (db_games (db s)). nat depth \<le> length (game_moves g)
           \<longrightarrow> join arrow (take (nat depth) (game_moves g)) \<notin> set builtinNames"
  shows "\<exists>r. fst (getOpeningTree depth s) = Returns r \<and>
    length r \<le> 20 \<and>
    sorted_wrt (\<lambda>a b. op_games b \<le> op_games a) r \<and>
    distinct (map (\<lambda>e. join arrow (op_moves e)) r) \<and>
    (\<forall>e \<in> set r.
       lineGames (nat depth) (join arrow (op_moves e)) (db_games (db s)) \<noteq> [] \<and>
       e = tallyOf
             (take (nat depth) (game_moves
                (hd (lineGames (nat depth) (join arrow (op_moves e)) (db_games (db s))))))
             (lineGames (nat depth) (join arrow (op_moves e)) (db_games (db s)))) \<and>
    (\<forall>g \<in> set (db_games (db s)).
       nat depth \<le> length (game_moves g) \<longrightarrow>
         (\<exists>e \<in> set r.
            join arrow (op_moves e) = join arrow (take (nat depth) (game_moves g)))
         \<or> (length r = 20 \<and>
            (\<forall>e \<in> set r.
               length (lineGames (nat depth) (join arrow (take (nat depth) (game_moves g)))
                        (db_games (db s))) \<le> op_games e)))"
proof -
  define ops where "ops = fst (openingsOf depth s)"
  define full where
    "full = sort_key (\<lambda>o1. descKey (ofCount (op_games o1))) (map snd (ownEntries ops))"
  define r where "r = take 20 full"
  have ret: "fst (getOpeningTree depth s) = Returns r"
    by (simp add: getOpeningTree_returns r_def full_def ops_def)
  have setfull: "set full = snd ` set ops"
    by (simp add: full_def set_ownEntries)
  have sub: "set r \<subseteq> set full"
    unfolding r_def by (rule set_take_subset)
  have entry: "lineGames (nat depth) k (db_games (db s)) \<noteq> [] \<and>
         e = tallyOf (take (nat depth) (game_moves (hd (lineGames (nat depth) k (db_games (db s))))))
               (lineGames (nat depth) k (db_games (db s))) \<and>
         join arrow (op_moves e) = k" if "(k, e) \<in> set ops" for k e
    using openingsOf_entry [OF assms] that unfolding ops_def by blast
  have len: "length r \<le> 20" by (simp add: r_def)
  have sortedfull: "sorted_wrt (\<lambda>a b. op_games b \<le> op_games a) full"
    unfolding full_def by (rule sorted_allLines)
  then have sorted: "sorted_wrt (\<lambda>a b. op_games b \<le> op_games a) r"
    unfolding r_def by (rule sorted_wrt_take)
  have dist: "distinct (map (\<lambda>e. join arrow (op_moves e)) r)"
  proof -
    have eq: "map (\<lambda>kv. join arrow (op_moves (snd kv))) ops = map fst ops"
    proof (rule map_cong [OF refl])
      fix kv assume "kv \<in> set ops"
      then have "(fst kv, snd kv) \<in> set ops" by simp
      from entry [OF this]
      show "join arrow (op_moves (snd kv)) = fst kv" by (rule conjunct2 [OF conjunct2])
    qed
    have "distinct (map fst ops)"
      unfolding ops_def openingsOf_def by (rule distinct_addGames) simp
    then have "distinct (map (\<lambda>kv. join arrow (op_moves (snd kv))) ops)"
      by (simp only: eq)
    moreover have "mset (map (\<lambda>e. join arrow (op_moves e)) full)
        = mset (map (\<lambda>kv. join arrow (op_moves (snd kv))) ops)"
      by (simp add: full_def mset_ownEntries multiset.map_comp comp_def)
    ultimately have "distinct (map (\<lambda>e. join arrow (op_moves e)) full)"
      using mset_eq_imp_distinct_iff by blast
    then show ?thesis
      unfolding r_def by (simp add: take_map [symmetric] distinct_take del: take_map)
  qed
  have ent: "\<forall>e \<in> set r.
       lineGames (nat depth) (join arrow (op_moves e)) (db_games (db s)) \<noteq> [] \<and>
       e = tallyOf
             (take (nat depth) (game_moves
                (hd (lineGames (nat depth) (join arrow (op_moves e)) (db_games (db s))))))
             (lineGames (nat depth) (join arrow (op_moves e)) (db_games (db s)))"
  proof
    fix e assume "e \<in> set r"
    then obtain k where k: "(k, e) \<in> set ops"
      using sub setfull by auto
    from entry [OF k] have "join arrow (op_moves e) = k"
      by (rule conjunct2 [OF conjunct2])
    with entry [OF k]
    show "lineGames (nat depth) (join arrow (op_moves e)) (db_games (db s)) \<noteq> [] \<and>
       e = tallyOf
             (take (nat depth) (game_moves
                (hd (lineGames (nat depth) (join arrow (op_moves e)) (db_games (db s))))))
             (lineGames (nat depth) (join arrow (op_moves e)) (db_games (db s)))"
      by simp
  qed
  have top: "(\<exists>e \<in> set r.
            join arrow (op_moves e) = join arrow (take (nat depth) (game_moves g)))
         \<or> (length r = 20 \<and>
            (\<forall>e \<in> set r.
               length (lineGames (nat depth) (join arrow (take (nat depth) (game_moves g)))
                        (db_games (db s))) \<le> op_games e))"
    if g: "g \<in> set (db_games (db s))" and long: "nat depth \<le> length (game_moves g)" for g
  proof -
    let ?k = "join arrow (take (nat depth) (game_moves g))"
    obtain e where e: "(?k, e) \<in> set ops"
      using openingsOf_complete [OF assms g long] unfolding ops_def by blast
    then have infull: "e \<in> set full"
      by (force simp: setfull)
    note en = entry [OF e]
    have key: "join arrow (op_moves e) = ?k"
      using en by (rule conjunct2 [OF conjunct2])
    have cnt: "op_games e = length (lineGames (nat depth) ?k (db_games (db s)))"
      using en [THEN conjunct2, THEN conjunct1] by (metis op_games_tallyOf)
    show ?thesis
    proof (cases "e \<in> set r")
      case True
      then show ?thesis using key by blast
    next
      case False
      obtain i where i: "i < length full" and ei: "full ! i = e"
        using infull by (auto simp: in_set_conv_nth)
      have "\<not> i < 20"
      proof
        assume "i < 20"
        then have "take 20 full ! i = e" using ei by simp
        moreover have "i < length (take 20 full)" using i \<open>i < 20\<close> by simp
        ultimately have "e \<in> set (take 20 full)" using nth_mem by blast
        then show False using False by (simp add: r_def)
      qed
      then have i20: "20 \<le> i" by simp
      then have len20: "length r = 20"
        using i by (simp add: r_def)
      have "op_games e \<le> op_games e'" if "e' \<in> set r" for e'
      proof -
        from that obtain j where j: "j < 20" and ej: "full ! j = e'"
          unfolding r_def by (auto simp: in_set_conv_nth)
        have "j < i" using j i20 by simp
        then have "op_games (full ! i) \<le> op_games (full ! j)"
          using sorted_wrt_nth_less [OF sortedfull \<open>j < i\<close> i] by simp
        then show ?thesis by (simp add: ei ej)
      qed
      then show ?thesis using len20 cnt by auto
    qed
  qed
  from ret len sorted dist ent top show ?thesis by blast
qed

lemma openingStore_tree:
  "fst (getOpeningTree 2 openingStore) =
     Returns
       [\<lparr>op_moves = [''e4'', ''e5''], op_games = 2, op_wins = 1, op_losses = 1, op_draws = 0\<rparr>,
        \<lparr>op_moves = [''d4'', ''d5''], op_games = 1, op_wins = 0, op_losses = 0, op_draws = 1\<rparr>]"
  by code_simp

text \<open>
  Claim C8: the source does not group by the sequence of the first \<open>depth\<close> moves. Its
  dictionary is keyed by the joined text of the moves and looked up through the
  prototype chain. The two games of \<open>collidingStore\<close> have different first two moves
  that join to the same text, each sequence is the prefix of one game, and the tree
  has a single entry that counts both games under the moves of the first. The first
  game of \<open>builtinStore\<close> has one move, named \<^verbatim>\<open>constructor\<close>, and the tree of depth 1
  has no entry for it.
\<close>

theorem getOpeningTree_key_collision:
  "fst (getOpeningTree 2 collidingStore) =
     Returns [\<lparr>op_moves = [''e4'' @ arrow @ ''e5'', ''Nf3''], op_games = 2, op_wins = 1,
               op_losses = 1, op_draws = 0\<rparr>] \<and>
   length (gamesWithPrefix 2 [''e4'' @ arrow @ ''e5'', ''Nf3''] (db_games (db collidingStore))) = 1 \<and>
   length (gamesWithPrefix 2 [''e4'', ''e5'' @ arrow @ ''Nf3''] (db_games (db collidingStore))) = 1 \<and>
   fst (getOpeningTree 1 builtinStore) =
     Returns [\<lparr>op_moves = [''e4''], op_games = 1, op_wins = 0, op_losses = 1, op_draws = 0\<rparr>] \<and>
   length (gamesWithPrefix 1 [''constructor''] (db_games (db builtinStore))) = 1"
  by code_simp

text \<open>
  A game whose only move is \<^verbatim>\<open>__proto__\<close> has no entry in the tree of depth 1 either, and
  the call leaves the properties \<^verbatim>\<open>games\<close> and \<^verbatim>\<open>wins\<close> on \<^verbatim>\<open>Object.prototype\<close>.
\<close>

lemma getOpeningTree_proto_key:
  "fst (getOpeningTree 1 protoStore) = Returns [] \<and>
   objectProto (snd (getOpeningTree 1 protoStore)) = [''games'', ''wins'']"
  by code_simp

subsection \<open>Move suggestions\<close>

text \<open>
  Rounding does not overflow on a rate in \<open>[0, 1]\<close>: the exponent of such a number is
  not positive, and the rounded significand exceeds the exact one by less than a unit.
\<close>

lemma bitLength_nonneg: "0 \<le> bitLength n"
proof (induction n rule: bitLength.induct)
  case (1 n)
  then show ?case by (subst bitLength.simps) simp
qed

lemma bitLength_pos: "0 < n \<Longrightarrow> 1 \<le> bitLength n"
  using bitLength_nonneg [of "n div 2"] by (subst bitLength.simps) simp

lemma pow2_pos: "0 < pow2 k"
  by (simp add: pow2_def)

lemma pow2_le_one: "k \<le> 0 \<Longrightarrow> pow2 k \<le> 1"
  by (simp add: pow2_def divide_le_eq_1)

lemma log2floor_unit:
  assumes "0 < a" and "a \<le> 1"
  shows "log2floor a \<le> 0"
proof (cases "a = 1")
  case True
  have "bitLength 1 = 1"
    by (subst bitLength.simps, subst bitLength.simps) simp
  then show ?thesis using True by (simp add: log2floor_def)
next
  case False
  then have lt: "a < 1" using assms(2) by simp
  have "1 \<le> 1 / a" using assms by (simp add: le_divide_eq_1)
  then have "1 \<le> \<lfloor>1 / a\<rfloor>" by (simp add: le_floor_iff)
  then have "1 \<le> bitLength \<lfloor>1 / a\<rfloor>" using bitLength_pos by simp
  then show ?thesis using lt by (simp add: log2floor_def negExponent_def)
qed

lemma roundHalfEven_le: "of_int (roundHalfEven m) \<le> m + 1"
proof -
  have f: "(of_int \<lfloor>m\<rfloor> :: rat) \<le> m" by (rule of_int_floor_le)
  have "roundHalfEven m = \<lfloor>m\<rfloor> \<or> roundHalfEven m = \<lfloor>m\<rfloor> + 1"
    by (simp add: roundHalfEven_def nearestOf_def)
  then show ?thesis
  proof
    assume "roundHalfEven m = \<lfloor>m\<rfloor>"
    then have "(of_int (roundHalfEven m) :: rat) = of_int \<lfloor>m\<rfloor>" by simp
    then show ?thesis using f by linarith
  next
    assume "roundHalfEven m = \<lfloor>m\<rfloor> + 1"
    then have "(of_int (roundHalfEven m) :: rat) = of_int \<lfloor>m\<rfloor> + 1" by simp
    then show ?thesis using f by linarith
  qed
qed

lemma scaleD_le: "scaleD a q \<le> a + pow2 q"
proof -
  have "of_int (roundHalfEven (a / pow2 q)) * pow2 q \<le> (a / pow2 q + 1) * pow2 q"
    using roundHalfEven_le [of "a / pow2 q"] pow2_pos [of q]
    by (simp add: mult_right_mono)
  also have "\<dots> = a + pow2 q"
    using pow2_pos [of q] by (simp add: algebra_simps)
  finally show ?thesis by (simp add: scaleD_def)
qed

lemma pow2_1024: "2 < pow2 1024"
  by (simp add: pow2_def)

lemma roundD_unit:
  assumes "0 \<le> x" and "x \<le> 1"
  shows "\<exists>y. roundD x = Finite y"
proof (cases "x = 0")
  case True
  then show ?thesis by (simp add: roundD_def)
next
  case False
  then have pos: "0 < x" using assms(1) by simp
  define q where "q = max (log2floor \<bar>x\<bar> - 52) (- 1074)"
  have "q \<le> 0" using log2floor_unit [OF pos assms(2)] pos by (simp add: q_def)
  then have "scaleD \<bar>x\<bar> q \<le> 2"
    using scaleD_le [of "\<bar>x\<bar>" q] pow2_le_one [of q] assms pos by simp
  then have "\<not> pow2 1024 \<le> scaleD \<bar>x\<bar> q" using pow2_1024 by simp
  then show ?thesis using False by (simp add: roundD_def packD_def q_def)
qed

lemma tenth: "roundD (1 / 10) = Finite (3602879701896397 / 36028797018963968)"
  by (simp add: dbl)

lemma dadd_not_NaN: "b \<noteq> NaN \<Longrightarrow> dadd (Finite x) b \<noteq> NaN"
  by (cases b) (simp_all add: roundD_def packD_def)

lemma exploration_not_NaN: "exploration stats \<noteq> NaN"
proof -
  have d: "ddiv (ofCount (ms_played stats)) (Finite 20) \<noteq> NaN"
    by (simp add: ofCount_def roundD_def packD_def)
  have s: "dsub (Finite 1) b \<noteq> NaN" if "b \<noteq> NaN" for b
    using that by (cases b) (simp_all add: dsub_def roundD_def packD_def)
  have m: "dmul (Finite (3602879701896397 / 36028797018963968)) b \<noteq> NaN" if "b \<noteq> NaN" for b
    using that by (cases b) (simp_all add: roundD_def packD_def)
  show ?thesis
    unfolding exploration_def tenth by (rule m [OF s [OF d]])
qed

lemma winRate_defined: "0 < ms_played stats \<Longrightarrow> winRateOf c stats \<noteq> NaN"
  by (simp add: winRateOf_def ofCount_def roundD_def packD_def)

lemma winRate_finite:
  assumes "0 < ms_played stats" and "ms_wins stats \<le> ms_played stats"
    and "ms_losses stats \<le> ms_played stats"
  shows "\<exists>y. winRateOf c stats = Finite y"
proof -
  have "\<exists>y. roundD (of_nat n / of_nat (ms_played stats)) = Finite y"
    if "n \<le> ms_played stats" for n
  proof (rule roundD_unit)
    show "(0::rat) \<le> of_nat n / of_nat (ms_played stats)" by simp
    have "(of_nat n :: rat) \<le> of_nat (ms_played stats)" using that by simp
    then show "(of_nat n :: rat) / of_nat (ms_played stats) \<le> 1"
      using assms(1) by (simp add: divide_le_eq_1)
  qed
  then show ?thesis using assms by (simp add: winRateOf_def ofCount_def)
qed

lemma score_defined:
  assumes "0 < ms_played (snd kv)" and "ms_wins (snd kv) \<le> ms_played (snd kv)"
    and "ms_losses (snd kv) \<le> ms_played (snd kv)"
  shows "sc_score (scoreMove col kv) \<noteq> NaN"
proof -
  obtain y where "winRateOf (Some col) (snd kv) = Finite y"
    using winRate_finite [OF assms] by blast
  then show ?thesis
    using dadd_not_NaN [OF exploration_not_NaN] by (simp add: scoreMove_def)
qed

lemma sc_score_scoreMove:
  "sc_score (scoreMove col kv) =
     dadd (if col = ''black'' then ddiv (ofCount (ms_losses (snd kv))) (ofCount (ms_played (snd kv)))
           else ddiv (ofCount (ms_wins (snd kv))) (ofCount (ms_played (snd kv))))
          (dmul (roundD (1 / 10))
             (dsub (Finite 1) (ddiv (ofCount (ms_played (snd kv))) (Finite 20))))"
  by (simp add: scoreMove_def winRateOf_def exploration_def)

lemma sug_winRate_toSuggestion:
  "sug_winRate (toSuggestion c kv) =
     (if c = Some ''black'' then ddiv (ofCount (ms_losses (snd kv))) (ofCount (ms_played (snd kv)))
      else ddiv (ofCount (ms_wins (snd kv))) (ofCount (ms_played (snd kv))))"
  by (simp add: toSuggestion_def winRateOf_def)

lemma ownEntries_nonempty: "moves \<noteq> [] \<Longrightarrow> length (ownEntries moves) \<noteq> 0"
  using arg_cong [OF mset_ownEntries [of moves], of size] by simp

lemma list_all_ownEntries: "list_all P (ownEntries al) = list_all P al"
  by (simp add: list_all_iff set_ownEntries)

lemma rankedBy_nonempty: "rankedBy key xs out \<Longrightarrow> xs \<noteq> [] \<Longrightarrow> out \<noteq> []"
  by (auto simp: rankedBy_def)

text \<open>
  Claim C5, as amended. For a known position with recorded moves none of whose scores
  is NaN (no move has \<open>played = 0\<close> with a zero numerator; lemmas \<open>score_defined\<close> and
  \<open>winRate_defined\<close>), \<^verbatim>\<open>suggestMove\<close> of \<^verbatim>\<open>learn.js\<close> gives each move the score
  \<open>winRate + 0.1 * (1 - played / 20)\<close> in double arithmetic (the bonus is not clamped
  at zero and is negative beyond 20 plays), orders the moves by descending score with
  ties in input order, and returns the first move of that order;
  \<^verbatim>\<open>getMoveSuggestions\<close> of the main module returns all moves sorted by descending
  \<open>winRate\<close>, with no bonus, ties in input order. \<open>winRate\<close> is \<open>losses / played\<close> when
  queried for black and \<open>wins / played\<close> otherwise.
\<close>

theorem suggestions_ranked:
  assumes "lhashPosition board = Inr h"
    and "find (\<lambda>p. lp_hash p = h) positions = Some pos"
    and "lp_moves pos \<noteq> []"
    and "list_all (\<lambda>kv. sc_score (scoreMove col kv) \<noteq> NaN) (lp_moves pos)"
    and "map_of (db_positions (db s)) k = Some p"
    and "list_all (\<lambda>kv. sug_winRate (toSuggestion c kv) \<noteq> NaN) (pos_moves p)"
  shows "(\<exists>best rest. scoredMoves col (lp_moves pos) = Some (best # rest) \<and>
            rankedBy sc_score (map (scoreMove col) (ownEntries (lp_moves pos))) (best # rest) \<and>
            suggestMove board col positions = Returns (Some best)) \<and>
         (\<forall>kv. sc_score (scoreMove col kv) =
            dadd (if col = ''black''
                  then ddiv (ofCount (ms_losses (snd kv))) (ofCount (ms_played (snd kv)))
                  else ddiv (ofCount (ms_wins (snd kv))) (ofCount (ms_played (snd kv))))
                 (dmul (roundD (1 / 10))
                    (dsub (Finite 1) (ddiv (ofCount (ms_played (snd kv))) (Finite 20))))) \<and>
         (\<exists>out. getMoveSuggestions k c s = Returns out \<and>
            rankedBy sug_winRate (map (toSuggestion c) (ownEntries (pos_moves p))) out) \<and>
         (\<forall>kv. sug_winRate (toSuggestion c kv) =
            (if c = Some ''black''
             then ddiv (ofCount (ms_losses (snd kv))) (ofCount (ms_played (snd kv)))
             else ddiv (ofCount (ms_wins (snd kv))) (ofCount (ms_played (snd kv)))))"
proof -
  have "list_all (\<lambda>x. sc_score x \<noteq> NaN) (map (scoreMove col) (ownEntries (lp_moves pos)))"
    using assms(4) by (simp add: list_all_iff set_ownEntries)
  from rankedBy_jsSortDesc [OF this]
  obtain out where out: "scoredMoves col (lp_moves pos) = Some out"
    and ranked: "rankedBy sc_score (map (scoreMove col) (ownEntries (lp_moves pos))) out"
    unfolding scoredMoves_def by blast
  have "map (scoreMove col) (ownEntries (lp_moves pos)) \<noteq> []"
    using ownEntries_nonempty [OF assms(3)] by auto
  from rankedBy_nonempty [OF ranked this]
  obtain best rest where br: "out = best # rest"
    by (cases out) auto
  have "suggestMove board col positions = Returns (Some best)"
    using ownEntries_nonempty [OF assms(3)]
    by (simp add: suggestMove_def assms(1,2) out br)
  with out ranked br
  have 1: "\<exists>best rest. scoredMoves col (lp_moves pos) = Some (best # rest) \<and>
            rankedBy sc_score (map (scoreMove col) (ownEntries (lp_moves pos))) (best # rest) \<and>
            suggestMove board col positions = Returns (Some best)"
    by blast
  have "list_all (\<lambda>x. sug_winRate x \<noteq> NaN) (map (toSuggestion c) (ownEntries (pos_moves p)))"
    using assms(6) by (simp add: list_all_iff set_ownEntries)
  from rankedBy_jsSortDesc [OF this]
  obtain out2 where "jsSortDesc sug_winRate (map (toSuggestion c) (ownEntries (pos_moves p)))
                       = Some out2"
    and r2: "rankedBy sug_winRate (map (toSuggestion c) (ownEntries (pos_moves p))) out2"
    by blast
  then have "getMoveSuggestions k c s = Returns out2"
    by (simp add: getMoveSuggestions_def assms(5) sortResult_def)
  with r2 have 2: "\<exists>out. getMoveSuggestions k c s = Returns out \<and>
            rankedBy sug_winRate (map (toSuggestion c) (ownEntries (pos_moves p))) out"
    by blast
  from 1 2 sc_score_scoreMove sug_winRate_toSuggestion show ?thesis by blast
qed

lemma suggestStore_stats:
  "map_of (db_positions (db suggestStore)) ''NGJrMy84''
     = Some ((samplePosition ''NGJrMy84'' 15 12)\<lparr>pos_moves := tiedMoves\<rparr>)"
  by (simp add: suggestStore_def)

lemma lhashPosition_kingsBoard: "lhashPosition kingsBoard = Inr ''NGJrMy84''"
  by code_simp

lemma oldStore_find:
  "find (\<lambda>p. lp_hash p = ''NGJrMy84'') oldStore
     = Some \<lparr>lp_hash = ''NGJrMy84'', lp_moves = veteranMoves\<rparr>"
  by (simp add: oldStore_def)

theorem suggestions_ranked_witness:
  "lhashPosition kingsBoard = Inr ''NGJrMy84'' \<and>
   find (\<lambda>p. lp_hash p = ''NGJrMy84'') oldStore
     = Some \<lparr>lp_hash = ''NGJrMy84'', lp_moves = veteranMoves\<rparr> \<and>
   veteranMoves \<noteq> [] \<and>
   list_all (\<lambda>kv. sc_score (scoreMove ''white'' kv) \<noteq> NaN) veteranMoves \<and>
   map_of (db_positions (db suggestStore)) ''NGJrMy84''
     = Some ((samplePosition ''NGJrMy84'' 15 12)\<lparr>pos_moves := tiedMoves\<rparr>) \<and>
   list_all (\<lambda>kv. sug_winRate (toSuggestion (Some ''white'') kv) \<noteq> NaN) tiedMoves \<and>
   (\<exists>best rest. scoredMoves ''white'' veteranMoves = Some (best # rest) \<and>
      rankedBy sc_score (map (scoreMove ''white'') (ownEntries veteranMoves)) (best # rest) \<and>
      suggestMove kingsBoard ''white'' oldStore = Returns (Some best)) \<and>
   (\<exists>out. getMoveSuggestions ''NGJrMy84'' (Some ''white'') suggestStore = Returns out \<and>
      rankedBy sug_winRate (map (toSuggestion (Some ''white'')) (ownEntries tiedMoves)) out)"
proof -
  have n: "lp_moves \<lparr>lp_hash = ''NGJrMy84'', lp_moves = veteranMoves\<rparr> \<noteq> []"
    by (simp add: veteranMoves_def)
  have v: "list_all (\<lambda>kv. sc_score (scoreMove ''white'' kv) \<noteq> NaN)
             (lp_moves \<lparr>lp_hash = ''NGJrMy84'', lp_moves = veteranMoves\<rparr>)"
    by (simp add: veteranMoves_def statsOf_def score_defined)
  have t: "list_all (\<lambda>kv. sug_winRate (toSuggestion (Some ''white'') kv) \<noteq> NaN)
             (pos_moves ((samplePosition ''NGJrMy84'' 15 12)\<lparr>pos_moves := tiedMoves\<rparr>))"
    by (simp add: tiedMoves_def statsOf_def toSuggestion_def winRate_defined)
  from suggestions_ranked [OF lhashPosition_kingsBoard oldStore_find n v suggestStore_stats t]
    lhashPosition_kingsBoard oldStore_find n v suggestStore_stats t
  show ?thesis by simp
qed

lemma own_veteranMoves: "ownEntries veteranMoves = veteranMoves"
  by code_simp

lemma own_tiedMoves: "ownEntries tiedMoves = tiedMoves"
  by code_simp

lemma own_unplayedMoves: "ownEntries unplayedMoves = unplayedMoves"
  by code_simp

lemma stats_fields:
  "ms_played (statsOf n w l) = n" "ms_wins (statsOf n w l) = w" "ms_losses (statsOf n w l) = l"
  by (simp_all add: statsOf_def)

lemma sample_scores:
  "scoreMove ''white'' (m, statsOf 40 20 l)
     = \<lparr>sc_move = m, sc_score = Finite (3602879701896397 / 9007199254740992), sc_played = 40\<rparr>"
  "scoreMove ''white'' (m, statsOf 20 9 l)
     = \<lparr>sc_move = m, sc_score = Finite (8106479329266893 / 18014398509481984), sc_played = 20\<rparr>"
  "scoreMove ''white'' (m, statsOf 20 3 l)
     = \<lparr>sc_move = m, sc_score = Finite (5404319552844595 / 36028797018963968), sc_played = 20\<rparr>"
  "scoreMove ''white'' (m, statsOf 10 (Suc 0) l)
     = \<lparr>sc_move = m, sc_score = Finite (1351079888211149 / 9007199254740992), sc_played = 10\<rparr>"
  "scoreMove ''white'' (m, statsOf 10 8 l)
     = \<lparr>sc_move = m, sc_score = Finite (1914029841632461 / 2251799813685248), sc_played = 10\<rparr>"
  "scoreMove ''white'' (m, statsOf 10 9 l)
     = \<lparr>sc_move = m, sc_score = Finite (8556839292003943 / 9007199254740992), sc_played = 10\<rparr>"
  "scoreMove ''white'' (m, statsOf 0 0 l) = \<lparr>sc_move = m, sc_score = NaN, sc_played = 0\<rparr>"
  by (simp_all add: scoreMove_def winRateOf_def exploration_def stats_fields dbl)

lemma sample_rates:
  "winRateOf (Some ''white'') (statsOf 10 8 l) = Finite (3602879701896397 / 4503599627370496)"
  "winRateOf (Some ''white'') (statsOf 5 4 l) = Finite (3602879701896397 / 4503599627370496)"
  "winRateOf (Some ''white'') (statsOf 10 9 l) = Finite (8106479329266893 / 9007199254740992)"
  "winRateOf (Some ''white'') (statsOf 0 0 l) = NaN"
  by (simp_all add: winRateOf_def stats_fields dbl)

lemma sample_specScores:
  "specScore (Some ''white'') (statsOf 40 20 l) = Finite (1 / 2)"
  "specScore (Some ''white'') (statsOf 20 9 l) = Finite (8106479329266893 / 18014398509481984)"
  "specScore (Some ''white'') (statsOf 10 8 l) = Finite (1914029841632461 / 2251799813685248)"
  "specScore (Some ''white'') (statsOf 5 4 l) = Finite (7 / 8)"
  by (simp_all add: specScore_def winRateOf_def dmax_def stats_fields dbl)

lemma veteran_scored:
  "scoredMoves ''white'' veteranMoves
     = Some [\<lparr>sc_move = ''e4'', sc_score = Finite (8106479329266893 / 18014398509481984),
               sc_played = 20\<rparr>,
             \<lparr>sc_move = ''Nf3'', sc_score = Finite (3602879701896397 / 9007199254740992),
               sc_played = 40\<rparr>]"
  unfolding scoredMoves_def own_veteranMoves
  by (simp add: veteranMoves_def sample_scores jsSortDesc_def descKey_def)

lemma veteran_suggested:
  "suggestMove kingsBoard ''white'' oldStore
     = Returns (Some \<lparr>sc_move = ''e4'',
                       sc_score = Finite (8106479329266893 / 18014398509481984),
                       sc_played = 20\<rparr>)"
proof -
  have "length (ownEntries veteranMoves) \<noteq> 0"
    by (rule ownEntries_nonempty) (simp add: veteranMoves_def)
  then show ?thesis
    by (simp add: suggestMove_def lhashPosition_kingsBoard oldStore_find veteran_scored)
qed

lemma veteran_specRanking: "specRanking (Some ''white'') veteranMoves = Some [''Nf3'', ''e4'']"
  unfolding specRanking_def own_veteranMoves
  by (simp add: veteranMoves_def sample_specScores jsSortDesc_def descKey_def)

lemma tied_specRanking: "specRanking (Some ''white'') tiedMoves = Some [''e4'', ''Nf3'']"
  unfolding specRanking_def own_tiedMoves
  by (simp add: tiedMoves_def sample_specScores jsSortDesc_def descKey_def)

lemma tied_suggestions:
  "getMoveSuggestions ''NGJrMy84'' (Some ''white'') suggestStore
     = Returns [toSuggestion (Some ''white'') (''Nf3'', statsOf 10 8 2),
                toSuggestion (Some ''white'') (''e4'', statsOf 5 4 1)]"
proof -
  have k: "sug_winRate (toSuggestion (Some ''white'') (m, st)) = winRateOf (Some ''white'') st"
    for m st by (simp add: toSuggestion_def)
  show ?thesis
    unfolding getMoveSuggestions_def suggestStore_stats
    by (simp add: own_tiedMoves)
       (simp add: tiedMoves_def jsSortDesc_def sortResult_def k sample_rates descKey_def)
qed

text \<open>
  Claim C5 as stated fails on both functions. In \<^verbatim>\<open>learn.js\<close> a move played 40 times
  with rate \<^verbatim>\<open>0.5\<close> scores \<^verbatim>\<open>0.5 + 0.1 * (1 - 2)\<close>, which is \<^verbatim>\<open>0.4\<close>, and ranks below a
  move played 20 times with rate \<^verbatim>\<open>0.45\<close>, where the clamped bonus ranks it above; and
  the function returns the first move only. In the main module two moves of rate
  \<^verbatim>\<open>0.8\<close> stay in input order, where the bonus ranks the less played one first.
\<close>

theorem suggestions_differ_from_bonus_formula:
  "suggestMove kingsBoard ''white'' oldStore
     = Returns (Some \<lparr>sc_move = ''e4'',
                       sc_score = Finite (8106479329266893 / 18014398509481984),
                       sc_played = 20\<rparr>) \<and>
   scoredMoves ''white'' veteranMoves
     = Some [\<lparr>sc_move = ''e4'', sc_score = Finite (8106479329266893 / 18014398509481984),
               sc_played = 20\<rparr>,
             \<lparr>sc_move = ''Nf3'', sc_score = Finite (3602879701896397 / 9007199254740992),
               sc_played = 40\<rparr>] \<and>
   specScore (Some ''white'') (statsOf 40 20 20) = Finite (1 / 2) \<and>
   specScore (Some ''white'') (statsOf 20 9 11)
     = Finite (8106479329266893 / 18014398509481984) \<and>
   specRanking (Some ''white'') veteranMoves = Some [''Nf3'', ''e4''] \<and>
   getMoveSuggestions ''NGJrMy84'' (Some ''white'') suggestStore
     = Returns [toSuggestion (Some ''white'') (''Nf3'', statsOf 10 8 2),
                toSuggestion (Some ''white'') (''e4'', statsOf 5 4 1)] \<and>
   specRanking (Some ''white'') tiedMoves = Some [''e4'', ''Nf3'']"
  using veteran_suggested veteran_scored sample_specScores(1) [of 20]
    sample_specScores(2) [of 11] veteran_specRanking tied_suggestions tied_specRanking
  by simp

text \<open>
  A move with an entry and no play has the rate and the score NaN (\<open>0 / 0\<close>); next to
  two moves of different scores the comparator of the sort is inconsistent, and the
  language leaves the order, and with it the suggested move, to the implementation.
\<close>

lemma unplayed_move_unspecified:
  "scoredMoves ''white'' unplayedMoves = None \<and>
   suggestMove kingsBoard ''white'' [\<lparr>lp_hash = ''NGJrMy84'', lp_moves = unplayedMoves\<rparr>]
     = Unspecified \<and>
   getMoveSuggestions ''NGJrMy84'' (Some ''white'') unplayedStore = Unspecified"
proof -
  have k: "sug_winRate (toSuggestion (Some ''white'') (m, st)) = winRateOf (Some ''white'') st"
    for m st by (simp add: toSuggestion_def)
  have 1: "scoredMoves ''white'' unplayedMoves = None"
    unfolding scoredMoves_def own_unplayedMoves
    by (simp add: unplayedMoves_def sample_scores jsSortDesc_def allTied_def)
  have l: "length (ownEntries unplayedMoves) \<noteq> 0"
    by (rule ownEntries_nonempty) (simp add: unplayedMoves_def)
  have 2: "suggestMove kingsBoard ''white'' [\<lparr>lp_hash = ''NGJrMy84'', lp_moves = unplayedMoves\<rparr>]
     = Unspecified"
    using l by (simp add: suggestMove_def lhashPosition_kingsBoard 1)
  have s: "map_of (db_positions (db unplayedStore)) ''NGJrMy84''
     = Some ((samplePosition ''NGJrMy84'' 15 12)\<lparr>pos_moves := unplayedMoves\<rparr>)"
    by (simp add: unplayedStore_def)
  have 3: "getMoveSuggestions ''NGJrMy84'' (Some ''white'') unplayedStore = Unspecified"
    unfolding getMoveSuggestions_def s
    by (simp add: own_unplayedMoves)
       (simp add: unplayedMoves_def jsSortDesc_def sortResult_def k sample_rates allTied_def)
  from 1 2 3 show ?thesis by simp
qed

text \<open>
  Rounding decides between scores that are equal as exact numbers: \<open>3/20 + 0\<close> and
  \<open>1/10 + 1/20\<close> are both \<open>3/20\<close>, and the second move, scored
  \<^verbatim>\<open>0.15000000000000002\<close>, is ranked before the first, scored \<^verbatim>\<open>0.15\<close>.
\<close>

lemma near_tie_ranked_by_rounding:
  "scoredMoves ''white'' [(''a4'', statsOf 20 3 17), (''b4'', statsOf 10 1 9)]
     = Some [\<lparr>sc_move = ''b4'', sc_score = Finite (1351079888211149 / 9007199254740992),
               sc_played = 10\<rparr>,
             \<lparr>sc_move = ''a4'', sc_score = Finite (5404319552844595 / 36028797018963968),
               sc_played = 20\<rparr>]"
proof -
  have o: "ownEntries [(''a4'', statsOf 20 3 17), (''b4'', statsOf 10 1 9)]
           = [(''a4'', statsOf 20 3 17), (''b4'', statsOf 10 1 9)]"
    by code_simp
  show ?thesis
    unfolding scoredMoves_def o
    by (simp add: sample_scores jsSortDesc_def descKey_def)
qed

section \<open>Properties of the import\<close>


text \<open>
  Claim C7. When \<^verbatim>\<open>JSON.parse\<close> fails on the input, \<^verbatim>\<open>importDatabase\<close> returns
  \<^verbatim>\<open>false\<close> (it does not throw) and the database is the one before the call.
\<close>

theorem import_malformed:
  "jsonParse pf jsonData = None \<Longrightarrow> importDatabase pf t jsonData d = (False, d)"
  by (simp add: importDatabase_def)

theorem import_malformed_witness:
  "jsonParse samplePlatform ''{oops'' = None \<and>
   importDatabase samplePlatform (tickAt 7) ''{oops'' staleValue = (False, staleValue)"
proof -
  have p: "jsonParse samplePlatform ''{oops'' = None" by code_simp
  from import_malformed [OF p, of "tickAt 7" staleValue] p show ?thesis by simp
qed




end

